theory Spec2Isabelle
  imports Complex_Main "HOL-Library.Sublist"
begin

section \<open>Errors, the Python library and the hardware\<close>

text \<open>An exception that leaves a function is the left value of its result.\<close>

datatype error =
    KeyError string
  | TypeError
  | IndexError
  | AttributeError
  | OverflowError
  | UnicodeDecodeError
  | JSONDecodeError
  | OSError
  | ConnectionFailed
  | WriteFailed

text \<open>
  What is decided outside the source. The hardware: whether a serial port or a TCP
  endpoint opens, whether a write on an open serial handle returns or raises, and
  whether the flush of a TCP stream returns or raises. The Python library, where the
  model does not compute it: the float nearest to an integer beyond \<open>2^53\<close> (or
  \<open>OverflowError\<close>), and the text of a float that is not a short fixed-point decimal.
\<close>

record env =
  serial_ok :: "string \<Rightarrow> bool"
  tcp_ok :: "string \<Rightarrow> string \<Rightarrow> bool"
  serial_write_ok :: "nat \<Rightarrow> string \<Rightarrow> bool"
  tcp_drain_ok :: "nat \<Rightarrow> bool"
  float_of_big_int :: "int \<Rightarrow> error + rat"
  str_of_float :: "rat \<Rightarrow> string"

section \<open>Python strings\<close>

text \<open>
  A Python \<open>str\<close> is a \<open>string\<close> holding its UTF-8 bytes. Every separator and
  keyword the source searches for is ASCII, so searching and splitting on bytes gives
  the same pieces as on code points.
\<close>

text \<open>\<open>sub in s\<close>.\<close>

fun contains :: "string \<Rightarrow> string \<Rightarrow> bool" where
  "contains sub [] = (sub = [])"
| "contains sub (c # cs) = (prefix sub (c # cs) \<or> contains sub cs)"

text \<open>\<open>s.split(sep)\<close> for a one-character separator: never an empty list.\<close>

fun py_split :: "char \<Rightarrow> string \<Rightarrow> string list" where
  "py_split sep [] = [Nil]"
| "py_split sep (c # cs) =
     (if c = sep then [] # py_split sep cs
      else (case py_split sep cs of
              [] \<Rightarrow> [c # Nil]
            | p # ps \<Rightarrow> (c # p) # ps))"

text \<open>\<open>s.split(sep, 1)\<close>: at most one cut, at the first separator.\<close>

fun split_once :: "char \<Rightarrow> string \<Rightarrow> string list" where
  "split_once sep [] = [Nil]"
| "split_once sep (c # cs) =
     (if c = sep then [Nil, cs]
      else (case split_once sep cs of
              [] \<Rightarrow> [c # Nil]
            | p # ps \<Rightarrow> (c # p) # ps))"

text \<open>
  \<open>s.replace(old, new)\<close>: every occurrence, left to right, without overlap. The
  source only calls it with the four-character \<open><CR>\<close>; for an empty \<open>old\<close>
  (which Python treats differently) the string is returned as it is.
\<close>

function py_replace :: "string \<Rightarrow> string \<Rightarrow> string \<Rightarrow> string" where
  "py_replace old new s =
     (if old = [] \<or> s = [] then s
      else if prefix old s then new @ py_replace old new (drop (length old) s)
      else hd s # py_replace old new (tl s))"
  by pat_completeness auto
termination
  by (relation "measure (\<lambda>(old, new, s). length s)") auto

declare py_replace.simps [simp del]

text \<open>\<open>str(n)\<close> for an integer.\<close>

function nat_str :: "nat \<Rightarrow> string" where
  "nat_str n =
     (if n < 10 then [''0123456789'' ! n]
      else nat_str (n div 10) @ [''0123456789'' ! (n mod 10)])"
  by pat_completeness auto
termination
  by (relation "measure id") auto

declare nat_str.simps [simp del]

definition int_str :: "int \<Rightarrow> string" where
  "int_str i = (if i < 0 then CHR ''-'' # nat_str (nat (- i)) else nat_str (nat i))"

text \<open>
  A finite Python \<open>float\<close> is the rational it denotes; NaN, the infinities and
  \<open>-0.0\<close> are outside the model. \<open>str(x)\<close>, which the f-string applies, is the
  shortest decimal text that reads back as \<open>x\<close>. For a float that is a decimal of at
  most 15 significant digits this is that decimal itself, and for a magnitude from
  \<open>1e-4\<close> up to \<open>1e16\<close>, and for zero, it is written in fixed-point notation with at
  least one fractional digit: this is \<open>fixed_str\<close>. The text of every other float is
  the library's, \<open>str_of_float\<close>.
\<close>

fun frac_digits :: "nat \<Rightarrow> rat \<Rightarrow> string" where
  "frac_digits 0 f = []"
| "frac_digits (Suc k) f =
     (let d = nat \<lfloor>f * 10\<rfloor>; r = f * 10 - of_nat d
      in (''0123456789'' ! d) # (if r = 0 then [] else frac_digits k r))"

definition fixed_str :: "rat \<Rightarrow> string" where
  "fixed_str x =
     (let a = \<bar>x\<bar>; n = nat \<lfloor>a\<rfloor>; f = a - of_nat n
      in (if x < 0 then ''-'' else []) @ nat_str n @ ''.'' @
         (if f = 0 then ''0'' else frac_digits 20 f))"

text \<open>\<open>y\<close> times a power of ten up to \<open>10^k\<close> is an integer below \<open>10^15\<close> in magnitude.\<close>

fun short_decimal :: "nat \<Rightarrow> rat \<Rightarrow> bool" where
  "short_decimal 0 y = (y = of_int \<lfloor>y\<rfloor> \<and> \<bar>y\<bar> < 10 ^ 15)"
| "short_decimal (Suc k) y =
     ((y = of_int \<lfloor>y\<rfloor> \<and> \<bar>y\<bar> < 10 ^ 15) \<or> short_decimal k (y * 10))"

definition short_fixed :: "rat \<Rightarrow> bool" where
  "short_fixed x =
     (x = 0 \<or> (1 / 10000 \<le> \<bar>x\<bar> \<and> \<bar>x\<bar> < 10 ^ 16 \<and> short_decimal 19 x))"

definition float_str :: "env \<Rightarrow> rat \<Rightarrow> string" where
  "float_str e x = (if short_fixed x then fixed_str x else str_of_float e x)"

section \<open>Values handed to a link\<close>

text \<open>
  The \<open>value\<close> argument is untyped in the source. The model carries the scalars a
  JSON payload delivers apart from strings: integers, floats, booleans and \<open>None\<close>.
\<close>

datatype pyval = VInt int | VFloat rat | VBool bool | VNone

text \<open>
  \<open>float(v)\<close>, \<open>bool(v)\<close>, \<open>int(v)\<close>. An integer up to \<open>2^53\<close> in magnitude is a float;
  a larger one is rounded, or raises \<open>OverflowError\<close>, as the library decides
  (\<open>float_of_big_int\<close>). \<open>int\<close> of a float truncates towards zero.
\<close>

fun to_float :: "env \<Rightarrow> pyval \<Rightarrow> error + rat" where
  "to_float e (VInt i) =
     (if \<bar>i\<bar> \<le> 2 ^ 53 then Inr (of_int i) else float_of_big_int e i)"
| "to_float e (VFloat r) = Inr r"
| "to_float e (VBool b) = Inr (if b then 1 else 0)"
| "to_float e VNone = Inl TypeError"

fun to_bool :: "pyval \<Rightarrow> bool" where
  "to_bool (VInt i) = (i \<noteq> 0)"
| "to_bool (VFloat r) = (r \<noteq> 0)"
| "to_bool (VBool b) = b"
| "to_bool VNone = False"

fun to_int :: "pyval \<Rightarrow> error + int" where
  "to_int (VInt i) = Inr i"
| "to_int (VFloat r) = Inr (if r < 0 then - \<lfloor>- r\<rfloor> else \<lfloor>r\<rfloor>)"
| "to_int (VBool b) = Inr (if b then 1 else 0)"
| "to_int VNone = Inl TypeError"

text \<open>The two-argument \<open>min\<close> and \<open>max\<close>: the first argument unless the second beats it.\<close>

definition py_min :: "'a::linorder \<Rightarrow> 'a \<Rightarrow> 'a" where
  "py_min a b = (if b < a then b else a)"

definition py_max :: "'a::linorder \<Rightarrow> 'a \<Rightarrow> 'a" where
  "py_max a b = (if a < b then b else a)"

section \<open>Configuration and instance state\<close>

text \<open>
  \<open>config['connection']\<close> and the entries of \<open>config['zones']\<close> are dictionaries; a
  key that is absent is \<open>None\<close> here. The serial device path and the TCP port are
  kept as opaque text.
\<close>

record connection =
  ctype :: "string option"
  port :: "string option"
  baudrate :: "int option"
  host :: "string option"
  bridge_id :: "string option"

record zone =
  zid :: "string option"
  zname :: "string option"
  volume_module :: "string option"
  mute_module :: "string option"
  source_module :: "string option"

record config =
  conn :: "connection option"
  zones :: "zone list option"

text \<open>
  An instance attribute is either missing from the object (\<open>hasattr\<close> is false) or
  bound to \<open>None\<close> or to a handle. Handles are numbered as they are opened.
\<close>

datatype attr = Missing | Bound "nat option"

fun hasattr :: "attr \<Rightarrow> bool" where
  "hasattr Missing = False"
| "hasattr (Bound v) = True"

fun truthy :: "attr \<Rightarrow> bool" where
  "truthy (Bound (Some h)) = True"
| "truthy a = False"

fun handle_of :: "attr \<Rightarrow> nat" where
  "handle_of (Bound (Some h)) = h"
| "handle_of a = 0"

text \<open>What the instance does to the outside world, in order.\<close>

datatype event =
    SerialOpen string int nat
  | SerialWrite nat string
  | SerialClose nat
  | TcpOpen string string nat
  | TcpWrite nat string
  | TcpDrain nat
  | TcpClose nat
  | MqttPublish string string
  | PublishState string string pyval

text \<open>
  Modelled from the spec: the base class \<open>BaseIntegration\<close> is not among the
  sources. It stores \<open>config\<close>, holds \<open>mqtt_client\<close> (here: whether a client is
  attached) and offers the state-publication sink \<open>publish_state(zone, parameter,
  value)\<close>, recorded as a \<open>PublishState\<close> event.
\<close>

record integration =
  config :: config
  serial_conn :: attr
  reader :: attr
  writer :: attr
  mqtt_client :: bool
  events :: "event list"
  next_handle :: nat

text \<open>\<open>__init__\<close>: the three transport attributes are bound to \<open>None\<close>.\<close>

definition init :: "config \<Rightarrow> bool \<Rightarrow> integration" where
  "init cfg mqtt =
     \<lparr>config = cfg, serial_conn = Bound None, reader = Bound None, writer = Bound None,
      mqtt_client = mqtt, events = [], next_handle = 0\<rparr>"

definition publish_state :: "string \<Rightarrow> string \<Rightarrow> pyval \<Rightarrow> integration \<Rightarrow> integration" where
  "publish_state z p v s = s\<lparr>events := events s @ [PublishState z p v]\<rparr>"

section \<open>Connection management\<close>

text \<open>\<open>self.config.get('connection', {}).get('type', 'serial')\<close>\<close>

definition conn_type :: "integration \<Rightarrow> string" where
  "conn_type s =
     (case conn (config s) of
        None \<Rightarrow> ''serial''
      | Some c \<Rightarrow> (case ctype c of None \<Rightarrow> ''serial'' | Some t \<Rightarrow> t))"

definition connect_serial :: "env \<Rightarrow> integration \<Rightarrow> error + integration" where
  "connect_serial e s =
     (case conn (config s) of
        None \<Rightarrow> Inl (KeyError ''connection'')
      | Some c \<Rightarrow>
          (case port c of
             None \<Rightarrow> Inl (KeyError ''port'')
           | Some p \<Rightarrow>
               (let baud = (case baudrate c of None \<Rightarrow> 9600 | Some b \<Rightarrow> b);
                    h = next_handle s
                in if serial_ok e p
                   then Inr (s\<lparr>serial_conn := Bound (Some h),
                               events := events s @ [SerialOpen p baud h],
                               next_handle := Suc h\<rparr>)
                   else Inl ConnectionFailed)))"

definition connect_tcp :: "env \<Rightarrow> integration \<Rightarrow> error + integration" where
  "connect_tcp e s =
     (case conn (config s) of
        None \<Rightarrow> Inl (KeyError ''connection'')
      | Some c \<Rightarrow>
          (case host c of
             None \<Rightarrow> Inl (KeyError ''host'')
           | Some hst \<Rightarrow>
               (case port c of
                  None \<Rightarrow> Inl (KeyError ''port'')
                | Some p \<Rightarrow>
                    (let h = next_handle s
                     in if tcp_ok e hst p
                        then Inr (s\<lparr>reader := Bound (Some h), writer := Bound (Some h),
                                    events := events s @ [TcpOpen hst p h],
                                    next_handle := Suc h\<rparr>)
                        else Inl ConnectionFailed))))"

definition connect :: "env \<Rightarrow> integration \<Rightarrow> error + integration" where
  "connect e s =
     (if conn_type s = ''serial'' then connect_serial e s
      else if conn_type s = ''tcp'' then connect_tcp e s
      else if conn_type s = ''bridge'' then Inr s
      else Inr s)"

definition disconnect :: "integration \<Rightarrow> integration" where
  "disconnect s =
     (let s1 = (if hasattr (serial_conn s) \<and> truthy (serial_conn s)
                then s\<lparr>serial_conn := Bound None,
                       events := events s @ [SerialClose (handle_of (serial_conn s))]\<rparr>
                else s)
      in if hasattr (writer s1) \<and> truthy (writer s1)
         then s1\<lparr>writer := Bound None, reader := Bound None,
                 events := events s1 @ [TcpClose (handle_of (writer s1))]\<rparr>
         else s1)"

section \<open>Low-level send\<close>

definition CR :: char where
  "CR = CHR 0x0D"

text \<open>
  A write that raises leaves \<open>send_command\<close> with the exception. On a TCP stream
  \<open>write\<close> only buffers; it is \<open>drain\<close> that returns or raises.
\<close>

definition send_command :: "env \<Rightarrow> string \<Rightarrow> integration \<Rightarrow> error + integration" where
  "send_command e command s =
     (let cmd = py_replace ''<CR>'' [CR] command;
          ct = conn_type s
      in case (if \<not> hasattr (serial_conn s) \<and> \<not> hasattr (writer s)
               then connect e s else Inr s) of
           Inl err \<Rightarrow> Inl err
         | Inr s1 \<Rightarrow>
             if ct = ''serial'' \<and> hasattr (serial_conn s1) \<and> truthy (serial_conn s1)
             then (if serial_write_ok e (handle_of (serial_conn s1)) cmd
                   then Inr (s1\<lparr>events := events s1 @
                                  [SerialWrite (handle_of (serial_conn s1)) cmd]\<rparr>)
                   else Inl WriteFailed)
             else if ct = ''tcp'' \<and> hasattr (writer s1) \<and> truthy (writer s1)
             then (if tcp_drain_ok e (handle_of (writer s1))
                   then Inr (s1\<lparr>events := events s1 @
                                  [TcpWrite (handle_of (writer s1)) cmd,
                                   TcpDrain (handle_of (writer s1))]\<rparr>)
                   else Inl WriteFailed)
             else if ct = ''bridge''
             then (if mqtt_client s1
                   then (case conn (config s1) of
                           None \<Rightarrow> Inl (KeyError ''connection'')
                         | Some c \<Rightarrow>
                             (case bridge_id c of
                                None \<Rightarrow> Inl (KeyError ''bridge_id'')
                              | Some b \<Rightarrow>
                                  Inr (s1\<lparr>events := events s1 @
                                         [MqttPublish (''bridges/'' @ b @ ''/command'') cmd]\<rparr>)))
                   else Inr s1)
             else Inr s1)"

section \<open>Device commands\<close>

definition cmd_set_volume ::
  "env \<Rightarrow> string \<Rightarrow> string \<Rightarrow> rat \<Rightarrow> integration \<Rightarrow> error + integration" where
  "cmd_set_volume e zone_id module_name level_db s =
     (let level = py_max (- 121 / 2) (py_min 12 level_db);
          cmd = ''SA\"'' @ module_name @ ''\">1>'' @ float_str e level @ ''<CR>''
      in case send_command e cmd s of
           Inl err \<Rightarrow> Inl err
         | Inr s1 \<Rightarrow> Inr (publish_state zone_id ''volume'' (VFloat level) s1))"

definition cmd_toggle_mute ::
  "env \<Rightarrow> string \<Rightarrow> string \<Rightarrow> bool \<Rightarrow> integration \<Rightarrow> error + integration" where
  "cmd_toggle_mute e zone_id module_name mute s =
     (let mute_value = (if mute then ''O'' else ''F'');
          cmd = ''SA\"'' @ module_name @ ''\">2>'' @ mute_value @ ''<CR>''
      in case send_command e cmd s of
           Inl err \<Rightarrow> Inl err
         | Inr s1 \<Rightarrow> Inr (publish_state zone_id ''mute'' (VBool mute) s1))"

definition cmd_set_source ::
  "env \<Rightarrow> string \<Rightarrow> string \<Rightarrow> int \<Rightarrow> integration \<Rightarrow> error + integration" where
  "cmd_set_source e zone_id module_name source_num s =
     (let src = py_max 1 (py_min 16 source_num);
          cmd = ''SA\"'' @ module_name @ ''\">1>'' @ int_str src @ ''<CR>''
      in case send_command e cmd s of
           Inl err \<Rightarrow> Inl err
         | Inr s1 \<Rightarrow> Inr (publish_state zone_id ''source'' (VInt src) s1))"

section \<open>Command handling\<close>

text \<open>The first zone whose \<open>id\<close> equals the one asked for, else \<open>None\<close>.\<close>

fun find_zone :: "zone list \<Rightarrow> string \<Rightarrow> zone option" where
  "find_zone [] zone_id = None"
| "find_zone (z # zs) zone_id =
     (if zid z = Some zone_id then Some z else find_zone zs zone_id)"

definition get_zone_config :: "integration \<Rightarrow> string \<Rightarrow> zone option" where
  "get_zone_config s zone_id =
     find_zone (case zones (config s) of None \<Rightarrow> [] | Some zs \<Rightarrow> zs) zone_id"

text \<open>A dictionary is falsy when it has no key at all.\<close>

definition zone_nonempty :: "zone \<Rightarrow> bool" where
  "zone_nonempty z =
     (zid z \<noteq> None \<or> zname z \<noteq> None \<or> volume_module z \<noteq> None \<or>
      mute_module z \<noteq> None \<or> source_module z \<noteq> None)"

definition get_or :: "'a option \<Rightarrow> 'a \<Rightarrow> 'a" where
  "get_or v d = (case v of None \<Rightarrow> d | Some x \<Rightarrow> x)"

definition handle_link_command ::
  "env \<Rightarrow> string \<Rightarrow> pyval \<Rightarrow> integration \<Rightarrow> error + integration" where
  "handle_link_command e link_id v s =
     (case split_once CHR ''_'' link_id of
        [zone_id, command] \<Rightarrow>
          (case get_zone_config s zone_id of
             None \<Rightarrow> Inr s
           | Some zc \<Rightarrow>
               if \<not> zone_nonempty zc then Inr s
               else
                 let vm = get_or (volume_module zc) ''Main Volume'';
                     mm = get_or (mute_module zc) ''Main Volume'';
                     sm = get_or (source_module zc) ''Selector 1''
                 in if command = ''volume'' \<or> command = ''set_volume''
                    then (case to_float e v of
                            Inl err \<Rightarrow> Inl err
                          | Inr x \<Rightarrow> cmd_set_volume e zone_id vm x s)
                    else if command = ''mute'' \<or> command = ''toggle_mute''
                    then cmd_toggle_mute e zone_id mm (to_bool v) s
                    else if command = ''source'' \<or> command = ''set_source''
                    then (case to_int v of
                            Inl err \<Rightarrow> Inl err
                          | Inr n \<Rightarrow> cmd_set_source e zone_id sm n s)
                    else Inr s)
      | _ \<Rightarrow> Inr s)"



section \<open>Discovery\<close>

subsection \<open>Decoding a datagram\<close>

text \<open>
  \<open>data.decode('utf-8')\<close> is strict: it raises on a byte sequence that is not
  well-formed UTF-8 (a stray or missing continuation byte, an overlong form, a
  surrogate, a code point above U+10FFFF). A well-formed sequence decodes to the text
  made of the same bytes.
\<close>

definition byte_in :: "nat \<Rightarrow> nat \<Rightarrow> char \<Rightarrow> bool" where
  "byte_in lo hi c = (lo \<le> (of_char c :: nat) \<and> (of_char c :: nat) \<le> hi)"

fun utf8_valid :: "string \<Rightarrow> bool" where
  "utf8_valid [] = True"
| "utf8_valid [c] = byte_in 0x00 0x7F c"
| "utf8_valid [c, c1] =
     (if byte_in 0x00 0x7F c then utf8_valid [c1]
      else byte_in 0xC2 0xDF c \<and> byte_in 0x80 0xBF c1)"
| "utf8_valid [c, c1, c2] =
     (if byte_in 0x00 0x7F c then utf8_valid [c1, c2]
      else if byte_in 0xC2 0xDF c then byte_in 0x80 0xBF c1 \<and> utf8_valid [c2]
      else if byte_in 0xE0 0xE0 c then byte_in 0xA0 0xBF c1 \<and> byte_in 0x80 0xBF c2
      else if byte_in 0xED 0xED c then byte_in 0x80 0x9F c1 \<and> byte_in 0x80 0xBF c2
      else byte_in 0xE1 0xEF c \<and> byte_in 0x80 0xBF c1 \<and> byte_in 0x80 0xBF c2)"
| "utf8_valid (c # c1 # c2 # c3 # cs) =
     (if byte_in 0x00 0x7F c then utf8_valid (c1 # c2 # c3 # cs)
      else if byte_in 0xC2 0xDF c then byte_in 0x80 0xBF c1 \<and> utf8_valid (c2 # c3 # cs)
      else if byte_in 0xE0 0xE0 c
        then byte_in 0xA0 0xBF c1 \<and> byte_in 0x80 0xBF c2 \<and> utf8_valid (c3 # cs)
      else if byte_in 0xED 0xED c
        then byte_in 0x80 0x9F c1 \<and> byte_in 0x80 0xBF c2 \<and> utf8_valid (c3 # cs)
      else if byte_in 0xE1 0xEF c
        then byte_in 0x80 0xBF c1 \<and> byte_in 0x80 0xBF c2 \<and> utf8_valid (c3 # cs)
      else if byte_in 0xF0 0xF0 c
        then byte_in 0x90 0xBF c1 \<and> byte_in 0x80 0xBF c2 \<and> byte_in 0x80 0xBF c3 \<and>
             utf8_valid cs
      else if byte_in 0xF1 0xF3 c
        then byte_in 0x80 0xBF c1 \<and> byte_in 0x80 0xBF c2 \<and> byte_in 0x80 0xBF c3 \<and>
             utf8_valid cs
      else byte_in 0xF4 0xF4 c \<and> byte_in 0x80 0x8F c1 \<and> byte_in 0x80 0xBF c2 \<and>
           byte_in 0x80 0xBF c3 \<and> utf8_valid cs)"

definition decode_utf8 :: "string \<Rightarrow> error + string" where
  "decode_utf8 ds = (if utf8_valid ds then Inr ds else Inl UnicodeDecodeError)"

subsection \<open>The receive loop\<close>

text \<open>
  What the socket delivers, call by call: \<open>Silence\<close> is a \<open>recvfrom\<close> that gives
  up after the one-second socket timeout; \<open>Packet d ds ip\<close> is a datagram of bytes
  \<open>ds\<close> (as \<open>recvfrom(1024)\<close> returns them) from address \<open>ip\<close>, arriving \<open>d\<close>
  milliseconds into the call. Once the script is used up the network stays silent.
  Time is counted in milliseconds since \<open>start_time\<close>.
\<close>

datatype arrival = Silence | Packet nat string string

definition poll_interval :: int where
  "poll_interval = 1000"

text \<open>
  \<open>while (time() - start_time) < timeout\<close>, with the body of the \<open>try\<close> given as
  \<open>body\<close>: it returns the devices to append, or the exception that leaves the loop.
\<close>

function listen ::
  "(string \<Rightarrow> string \<Rightarrow> error + 'd list) \<Rightarrow> int \<Rightarrow> int \<Rightarrow> arrival list \<Rightarrow> 'd list
     \<Rightarrow> error + 'd list" where
  "listen body limit now script devices =
     (if now < limit then
        (case script of
           [] \<Rightarrow> listen body limit (now + poll_interval) [] devices
         | Silence # rest \<Rightarrow> listen body limit (now + poll_interval) rest devices
         | Packet d ds ip # rest \<Rightarrow>
             (case body ds ip of
                Inl err \<Rightarrow> Inl err
              | Inr found \<Rightarrow> listen body limit (now + int d) rest (devices @ found)))
      else Inr devices)"
  by pat_completeness auto
termination
  by (relation "measure (\<lambda>(body, limit, now, script, devices).
                   nat (limit - now) + length script)")
     (auto simp: poll_interval_def)

declare listen.simps [simp del]

subsection \<open>Empire bridges\<close>

text \<open>
  \<open>json.loads\<close> belongs to the Python library; the session takes it as the
  parameter \<open>loads\<close>, \<open>None\<close> standing for \<open>JSONDecodeError\<close>. A JSON object is the
  list of its items, one per key.
\<close>

datatype json =
    JNull
  | JBool bool
  | JInt int
  | JFloat rat
  | JStr string
  | JArr "json list"
  | JObj "(string \<times> json) list"

record bridge =
  b_name :: json
  b_ip :: string
  b_port :: json
  b_model :: json
  b_version :: json
  b_serial :: json
  b_capabilities :: json

text \<open>\<open>response.get(key, default)\<close> on a dictionary.\<close>

definition dict_get :: "(string \<times> json) list \<Rightarrow> string \<Rightarrow> json \<Rightarrow> json" where
  "dict_get kv k d = (case map_of kv k of None \<Rightarrow> d | Some v \<Rightarrow> v)"

text \<open>The body of the \<open>try\<close>: the device found, if any, or the exception raised.\<close>

definition empire_try ::
  "(string \<Rightarrow> json option) \<Rightarrow> string \<Rightarrow> string \<Rightarrow> error + bridge option" where
  "empire_try loads ds ip =
     (case decode_utf8 ds of
        Inl err \<Rightarrow> Inl err
      | Inr text \<Rightarrow>
          (case loads text of
             None \<Rightarrow> Inl JSONDecodeError
           | Some (JObj kv) \<Rightarrow>
               if map_of kv ''type'' = Some (JStr ''empire_bridge'')
               then Inr (Some \<lparr>b_name = dict_get kv ''name'' (JStr ''Empire Bridge''),
                                b_ip = ip,
                                b_port = dict_get kv ''port'' (JInt 5000),
                                b_model = dict_get kv ''model'' (JStr ''Unknown''),
                                b_version = dict_get kv ''version'' (JStr ''Unknown''),
                                b_serial = dict_get kv ''serial'' (JStr ''Unknown''),
                                b_capabilities = dict_get kv ''capabilities'' (JArr [])\<rparr>)
               else Inr None
           | Some other \<Rightarrow> Inl AttributeError))"

text \<open>
  The handlers: \<open>JSONDecodeError\<close> continues, and \<open>except Exception\<close> prints and
  falls through to the next round, so no exception of the body leaves the loop.
\<close>

definition empire_body ::
  "(string \<Rightarrow> json option) \<Rightarrow> string \<Rightarrow> string \<Rightarrow> error + bridge list" where
  "empire_body loads ds ip =
     (case empire_try loads ds ip of
        Inl err \<Rightarrow> Inr []
      | Inr None \<Rightarrow> Inr []
      | Inr (Some dev) \<Rightarrow> Inr [dev])"

text \<open>
  \<open>EmpireBridgeDiscovery.discover(timeout)\<close>, \<open>timeout\<close> in seconds. Each of its three
  broadcasts has a handler of its own that swallows a \<open>sendto\<close> that raises, so the
  broadcasts do not show in the result.
\<close>

definition discover ::
  "(string \<Rightarrow> json option) \<Rightarrow> int \<Rightarrow> arrival list \<Rightarrow> error + bridge list" where
  "discover loads timeout script = listen (empire_body loads) (timeout * 1000) 0 script []"

subsection \<open>iTach devices\<close>

record itach =
  i_ip :: string
  i_port :: int
  i_model :: string
  i_uuid :: string
  i_name :: string
  i_integration :: string
  i_type :: string
  i_category :: string

text \<open>\<open>for part in parts\<close>; \<open>part.split('=')[1]\<close> raises when there is no second piece.\<close>

fun scan_parts :: "string \<Rightarrow> string list \<Rightarrow> itach \<Rightarrow> error + itach" where
  "scan_parts ip [] dev = Inr dev"
| "scan_parts ip (part # parts) dev =
     (if contains ''UUID='' part then
        (case py_split CHR ''='' part of
           k # v # others \<Rightarrow> scan_parts ip parts (dev\<lparr>i_uuid := v\<rparr>)
         | _ \<Rightarrow> Inl IndexError)
      else if contains ''Model='' part then
        (case py_split CHR ''='' part of
           k # v # others \<Rightarrow>
             scan_parts ip parts
               (dev\<lparr>i_model := v, i_name := ''iTach '' @ v @ '' at '' @ ip\<rparr>)
         | _ \<Rightarrow> Inl IndexError)
      else scan_parts ip parts dev)"

definition itach_try :: "string \<Rightarrow> string \<Rightarrow> error + itach option" where
  "itach_try ds ip =
     (case decode_utf8 ds of
        Inl err \<Rightarrow> Inl err
      | Inr response \<Rightarrow>
          if contains ''AMXB'' response then
            (case scan_parts ip (py_split CHR ''-'' response)
                    \<lparr>i_ip = ip, i_port = 4999, i_model = ''Unknown'', i_uuid = ''Unknown'',
                     i_name = ''iTach at '' @ ip, i_integration = ''global_cache_itach'',
                     i_type = ''globalcache'', i_category = ''bridge''\<rparr> of
               Inl err \<Rightarrow> Inl err
             | Inr dev \<Rightarrow> Inr (Some dev))
          else Inr None)"

text \<open>Only \<open>socket.timeout\<close> is handled: any exception of the body leaves the loop.\<close>

definition itach_body :: "string \<Rightarrow> string \<Rightarrow> error + itach list" where
  "itach_body ds ip =
     (case itach_try ds ip of
        Inl err \<Rightarrow> Inl err
      | Inr None \<Rightarrow> Inr []
      | Inr (Some dev) \<Rightarrow> Inr [dev])"

text \<open>
  \<open>GlobalCacheItachIntegration.discover_devices(timeout)\<close>, \<open>timeout\<close> in seconds. The
  beacon is sent outside the loop's \<open>try\<close>: when \<open>sendto\<close> raises (\<open>beacon_sent\<close> is
  false) the session ends with \<open>OSError\<close> before it listens.
\<close>

definition discover_devices :: "bool \<Rightarrow> int \<Rightarrow> arrival list \<Rightarrow> error + itach list" where
  "discover_devices beacon_sent timeout script =
     (if beacon_sent then listen itach_body (timeout * 1000) 0 script []
      else Inl OSError)"

subsection \<open>What a session is to return\<close>

text \<open>
  The datagrams a session hears: those the socket delivers while the clock is short of
  the deadline at the start of the \<open>recvfrom\<close>.
\<close>

fun heard :: "int \<Rightarrow> int \<Rightarrow> arrival list \<Rightarrow> (string \<times> string) list" where
  "heard limit now [] = []"
| "heard limit now (Silence # rest) =
     (if now < limit then heard limit (now + poll_interval) rest else [])"
| "heard limit now (Packet d ds ip # rest) =
     (if now < limit then (ds, ip) # heard limit (now + int d) rest else [])"

text \<open>
  The entry an iTach reply stands for: the uuid is the second \<open>=\<close>-piece of the last
  \<open>-\<close>-separated part that contains \<open>UUID=\<close>, the model that of the last part that
  contains \<open>Model=\<close> and not \<open>UUID=\<close>, each \<open>Unknown\<close> when no part does; the name
  carries the model when there is one; the port is 4999.
\<close>

definition last_value :: "(string \<Rightarrow> bool) \<Rightarrow> string list \<Rightarrow> string option" where
  "last_value wanted parts =
     (case filter wanted parts of
        [] \<Rightarrow> None
      | p # ps \<Rightarrow> Some (py_split CHR ''='' (last (p # ps)) ! 1))"

definition itach_entry :: "string \<Rightarrow> string \<Rightarrow> itach" where
  "itach_entry ds ip =
     (let parts = py_split CHR ''-'' ds;
          uuid = last_value (contains ''UUID='') parts;
          model = last_value (\<lambda>p. contains ''Model='' p \<and> \<not> contains ''UUID='' p) parts
      in \<lparr>i_ip = ip, i_port = 4999,
          i_model = (case model of None \<Rightarrow> ''Unknown'' | Some m \<Rightarrow> m),
          i_uuid = (case uuid of None \<Rightarrow> ''Unknown'' | Some u \<Rightarrow> u),
          i_name = (case model of
                      None \<Rightarrow> ''iTach at '' @ ip
                    | Some m \<Rightarrow> ''iTach '' @ m @ '' at '' @ ip),
          i_integration = ''global_cache_itach'', i_type = ''globalcache'',
          i_category = ''bridge''\<rparr>)"

definition itach_entries :: "(string \<times> string) list \<Rightarrow> itach list" where
  "itach_entries replies =
     map (\<lambda>(ds, ip). itach_entry ds ip) (filter (\<lambda>(ds, ip). contains ''AMXB'' ds) replies)"

text \<open>One call of \<open>send_command\<close> with \<open>cmd\<close>, then one publication, as every device command does.\<close>

definition sent_and_published ::
  "env \<Rightarrow> string \<Rightarrow> string \<Rightarrow> string \<Rightarrow> pyval \<Rightarrow> integration \<Rightarrow> error + integration" where
  "sent_and_published e cmd z p v s =
     (case send_command e cmd s of
        Inl err \<Rightarrow> Inl err
      | Inr s1 \<Rightarrow> Inr (publish_state z p v s1))"

section \<open>Sample configurations\<close>

text \<open>
  A serial installation with a given zone list, and an environment in which every
  port opens and every write returns (its two library entries are stand-ins that no
  sample reaches).
\<close>

definition master_zone :: zone where
  "master_zone =
     \<lparr>zid = Some ''master'', zname = Some ''Master'',
      volume_module = Some ''Main Volume'', mute_module = Some ''Main Volume'',
      source_module = Some ''Selector 1''\<rparr>"

definition serial_config :: "zone list \<Rightarrow> config" where
  "serial_config zs =
     \<lparr>conn = Some \<lparr>ctype = Some ''serial'', port = Some ''/dev/ttyUSB0'', baudrate = None,
                    host = None, bridge_id = None\<rparr>,
      zones = Some zs\<rparr>"

definition open_env :: env where
  "open_env =
     \<lparr>serial_ok = (\<lambda>p. True), tcp_ok = (\<lambda>h p. True),
      serial_write_ok = (\<lambda>h bs. True), tcp_drain_ok = (\<lambda>h. True),
      float_of_big_int = (\<lambda>i. Inl OverflowError), str_of_float = (\<lambda>x. ''nan'')\<rparr>"

text \<open>The instance after \<open>__init__\<close> and one successful \<open>connect()\<close>.\<close>

definition live_serial :: "zone list \<Rightarrow> integration" where
  "live_serial zs =
     \<lparr>config = serial_config zs, serial_conn = Bound (Some 0), reader = Bound None,
      writer = Bound None, mqtt_client = False,
      events = [SerialOpen ''/dev/ttyUSB0'' 9600 0], next_handle = 1\<rparr>"


text \<open>The same installation over TCP, connected, and one that goes through a bridge.\<close>

definition tcp_config :: "zone list \<Rightarrow> config" where
  "tcp_config zs =
     \<lparr>conn = Some \<lparr>ctype = Some ''tcp'', port = Some ''10055'', baudrate = None,
                    host = Some ''192.168.1.50'', bridge_id = None\<rparr>,
      zones = Some zs\<rparr>"

definition live_tcp :: "zone list \<Rightarrow> integration" where
  "live_tcp zs =
     \<lparr>config = tcp_config zs, serial_conn = Bound None, reader = Bound (Some 0),
      writer = Bound (Some 0), mqtt_client = False,
      events = [TcpOpen ''192.168.1.50'' ''10055'' 0], next_handle = 1\<rparr>"

definition bridge_config :: "zone list \<Rightarrow> config" where
  "bridge_config zs =
     \<lparr>conn = Some \<lparr>ctype = Some ''bridge'', port = None, baudrate = None,
                    host = None, bridge_id = Some ''rack1''\<rparr>,
      zones = Some zs\<rparr>"

text \<open>A zone whose id is the empty string, and one whose id holds an underscore.\<close>

definition blank_zone :: zone where
  "blank_zone = master_zone\<lparr>zid := Some []\<rparr>"




text \<open>A stand-in for \<open>json.loads\<close> that knows the replies of the sample bridge.\<close>

definition sample_reply :: string where
  "sample_reply = ''{\"type\":\"empire_bridge\",\"name\":\"X\",\"port\":5001}''"

definition untyped_reply :: string where
  "untyped_reply = ''{\"name\":\"X\",\"port\":5001}''"

definition sample_loads :: "string \<Rightarrow> json option" where
  "sample_loads text =
     (if text = sample_reply
      then Some (JObj [(''type'', JStr ''empire_bridge''), (''name'', JStr ''X''),
                       (''port'', JInt 5001)])
      else if text = untyped_reply
      then Some (JObj [(''name'', JStr ''X''), (''port'', JInt 5001)])
      else None)"

section \<open>Facts about the string operations\<close>

lemma split_once_no_sep: "sep \<notin> set s \<Longrightarrow> split_once sep s = [s]"
  by (induction s) auto



lemma split_once_append: "sep \<notin> set a \<Longrightarrow> split_once sep (a @ sep # b) = [a, b]"
  by (induction a) auto


lemma py_split_nonempty: "py_split sep s \<noteq> []"
  by (induction s) (auto split: list.splits)

lemma py_split_two: "sep \<in> set s \<Longrightarrow> \<exists>k v r. py_split sep s = k # v # r"
proof (induction s)
  case Nil
  then show ?case by simp
next
  case (Cons c cs)
  show ?case
  proof (cases "c = sep")
    case True
    then show ?thesis using py_split_nonempty [of sep cs]
      by (cases "py_split sep cs") auto
  next
    case False
    with Cons show ?thesis by auto
  qed
qed

lemma py_split_append_sep:
  "py_split sep (a @ sep # b) = py_split sep a @ py_split sep b"
proof (induction a)
  case Nil
  then show ?case by simp
next
  case (Cons c cs)
  obtain p ps where p: "py_split sep cs = p # ps"
    using py_split_nonempty [of sep cs] by (cases "py_split sep cs") auto
  show ?case using Cons p by simp
qed

lemma py_split_hd: "\<exists>b. s = hd (py_split sep s) @ b"
proof (induction s)
  case Nil
  then show ?case by simp
next
  case (Cons c cs)
  obtain q qs where q: "py_split sep cs = q # qs"
    using py_split_nonempty [of sep cs] by (cases "py_split sep cs") auto
  from Cons obtain b where "cs = q @ b" using q by auto
  then show ?case using q by auto
qed

lemma py_split_part:
  "p \<in> set (py_split sep s) \<Longrightarrow> \<exists>a b. s = a @ p @ b"
proof (induction s arbitrary: p)
  case Nil
  then show ?case by simp
next
  case (Cons c cs)
  obtain q qs where q: "py_split sep cs = q # qs"
    using py_split_nonempty [of sep cs] by (cases "py_split sep cs") auto
  show ?case
  proof (cases "c = sep")
    case True
    then have "p = [] \<or> p \<in> set (py_split sep cs)" using Cons.prems by auto
    then show ?thesis
    proof
      assume "p = []"
      then have "c # cs = [] @ p @ (c # cs)" by simp
      then show ?thesis by blast
    next
      assume "p \<in> set (py_split sep cs)"
      then obtain a b where "cs = a @ p @ b" using Cons.IH by blast
      then have "c # cs = (c # a) @ p @ b" by simp
      then show ?thesis by blast
    qed
  next
    case False
    then have "p = c # q \<or> p \<in> set qs" using Cons.prems q by auto
    then show ?thesis
    proof
      assume pc: "p = c # q"
      from py_split_hd [of cs sep] obtain b where "cs = q @ b" using q by auto
      then have "c # cs = [] @ p @ b" using pc by simp
      then show ?thesis by blast
    next
      assume "p \<in> set qs"
      then have "p \<in> set (py_split sep cs)" using q by simp
      then obtain a b where "cs = a @ p @ b" using Cons.IH by blast
      then have "c # cs = (c # a) @ p @ b" by simp
      then show ?thesis by blast
    qed
  qed
qed

lemma contains_set: "contains sub s \<Longrightarrow> set sub \<subseteq> set s"
proof (induction s)
  case Nil
  then show ?case by simp
next
  case (Cons c cs)
  from Cons.prems have "prefix sub (c # cs) \<or> contains sub cs" by simp
  then show ?case
  proof
    assume "prefix sub (c # cs)"
    then show ?thesis by (rule set_mono_prefix)
  next
    assume "contains sub cs"
    then have "set sub \<subseteq> set cs" by (rule Cons.IH)
    then show ?thesis by auto
  qed
qed

lemma contains_iff: "contains sub s \<longleftrightarrow> (\<exists>u v. s = u @ sub @ v)"
proof (induction s)
  case Nil
  then show ?case by auto
next
  case (Cons c cs)
  show ?case
  proof
    assume "contains sub (c # cs)"
    then have "prefix sub (c # cs) \<or> contains sub cs" by simp
    then show "\<exists>u v. c # cs = u @ sub @ v"
    proof
      assume "prefix sub (c # cs)"
      then obtain v where "c # cs = sub @ v" by (auto simp: prefix_def)
      then have "c # cs = [] @ sub @ v" by simp
      then show ?thesis by blast
    next
      assume "contains sub cs"
      then obtain u v where "cs = u @ sub @ v" using Cons.IH by blast
      then have "c # cs = (c # u) @ sub @ v" by simp
      then show ?thesis by blast
    qed
  next
    assume "\<exists>u v. c # cs = u @ sub @ v"
    then obtain u v where e: "c # cs = u @ sub @ v" by blast
    show "contains sub (c # cs)"
    proof (cases u)
      case Nil
      then have "prefix sub (c # cs)" using e by (simp add: prefix_def)
      then show ?thesis by simp
    next
      case (Cons a u')
      then have "cs = u' @ sub @ v" using e by simp
      then have "contains sub cs" using Cons.IH by blast
      then show ?thesis by simp
    qed
  qed
qed

lemma contains_part:
  assumes "p \<in> set (py_split sep s)" and "contains sub p"
  shows "contains sub s"
proof -
  from py_split_part [OF assms(1)] obtain a b where s: "s = a @ p @ b" by blast
  from assms(2) obtain u v where p: "p = u @ sub @ v" unfolding contains_iff by blast
  have "s = (a @ u) @ sub @ (v @ b)" unfolding s p by simp
  then show ?thesis unfolding contains_iff by blast
qed

lemma py_replace_CR_end:
  "py_replace ''<CR>'' [CR] (a @ ''<CR>'') = py_replace ''<CR>'' [CR] a @ [CR]"
proof (induction "''<CR>''" "[CR]" a rule: py_replace.induct)
  case (1 s)
  show ?case
  proof (cases "s = []")
    case True
    then show ?thesis by (simp add: py_replace.simps)
  next
    case ne: False
    show ?thesis
    proof (cases "prefix ''<CR>'' s")
      case True
      then obtain r where s: "s = ''<CR>'' @ r" by (auto simp: prefix_def)
      have ih: "py_replace ''<CR>'' [CR] (r @ ''<CR>'') = py_replace ''<CR>'' [CR] r @ [CR]"
        using "1.hyps"(1) ne True s by simp
      have a: "py_replace ''<CR>'' [CR] (s @ ''<CR>'') = [CR] @ py_replace ''<CR>'' [CR] (r @ ''<CR>'')"
        by (subst py_replace.simps) (simp add: s)
      have b: "py_replace ''<CR>'' [CR] s = [CR] @ py_replace ''<CR>'' [CR] r"
        by (subst py_replace.simps) (simp add: s)
      show ?thesis using a b ih by simp
    next
      case False
      obtain c cs where s: "s = c # cs" using ne by (cases s) auto
      have ih: "py_replace ''<CR>'' [CR] (cs @ ''<CR>'') = py_replace ''<CR>'' [CR] cs @ [CR]"
        using "1.hyps"(2) ne False s by simp
      have np: "\<not> prefix ''<CR>'' (s @ ''<CR>'')"
        using False ne by (auto simp: prefix_append append_eq_Cons_conv Cons_eq_append_conv)
      have a0: "py_replace ''<CR>'' [CR] (s @ ''<CR>'') =
                  hd (s @ ''<CR>'') # py_replace ''<CR>'' [CR] (tl (s @ ''<CR>''))"
        using np py_replace.simps [of "''<CR>''" "[CR]" "s @ ''<CR>''"] by simp
      have a: "py_replace ''<CR>'' [CR] (s @ ''<CR>'') = c # py_replace ''<CR>'' [CR] (cs @ ''<CR>'')"
        unfolding a0 by (simp add: s)
      have b0: "py_replace ''<CR>'' [CR] s = hd s # py_replace ''<CR>'' [CR] (tl s)"
        using False ne py_replace.simps [of "''<CR>''" "[CR]" s] by simp
      have b: "py_replace ''<CR>'' [CR] s = c # py_replace ''<CR>'' [CR] cs"
        unfolding b0 by (simp add: s)
      show ?thesis using a b ih by simp
    qed
  qed
qed

section \<open>Facts about formatting, sending and dispatching\<close>

lemma float_str_minus_10: "float_str e (- 10) = ''-10.0''"
proof -
  have "short_fixed (- 10)" by code_simp
  moreover have "fixed_str (- 10) = ''-10.0''" by code_simp
  ultimately show ?thesis by (simp add: float_str_def)
qed

lemma float_str_zero: "float_str e 0 = ''0.0''"
proof -
  have "short_fixed 0" by code_simp
  moreover have "fixed_str 0 = ''0.0''" by code_simp
  ultimately show ?thesis by (simp add: float_str_def)
qed


lemma float_str_low: "float_str e (- 121 / 2) = ''-60.5''"
proof -
  have "short_fixed (- 121 / 2)" by code_simp
  moreover have "fixed_str (- 121 / 2) = ''-60.5''" by code_simp
  ultimately show ?thesis by (simp add: float_str_def)
qed

lemma float_str_high: "float_str e 12 = ''12.0''"
proof -
  have "short_fixed 12" by code_simp
  moreover have "fixed_str 12 = ''12.0''" by code_simp
  ultimately show ?thesis by (simp add: float_str_def)
qed

lemma int_str_1: "int_str 1 = ''1''"
  by code_simp

lemma int_str_16: "int_str 16 = ''16''"
  by code_simp


lemma send_command_serial_live:
  assumes "conn_type s = ''serial''" and "serial_conn s = Bound (Some h)"
  shows "send_command e c s =
         (if serial_write_ok e h (py_replace ''<CR>'' [CR] c)
          then Inr (s\<lparr>events := events s @ [SerialWrite h (py_replace ''<CR>'' [CR] c)]\<rparr>)
          else Inl WriteFailed)"
  using assms by (simp add: send_command_def Let_def)




lemma find_zone_Some: "find_zone zs z = Some zc \<Longrightarrow> zid zc = Some z"
  by (induction zs) (auto split: if_splits)



lemma get_zone_config_nonempty: "get_zone_config s z = Some zc \<Longrightarrow> zone_nonempty zc"
  by (auto simp: get_zone_config_def zone_nonempty_def dest: find_zone_Some)

lemma cmd_set_volume_eq:
  "cmd_set_volume e z m x s =
   sent_and_published e
     (''SA\"'' @ m @ ''\">1>'' @ float_str e (py_max (- 121 / 2) (py_min 12 x)) @ ''<CR>'')
     z ''volume'' (VFloat (py_max (- 121 / 2) (py_min 12 x))) s"
  by (simp add: cmd_set_volume_def sent_and_published_def Let_def)

lemma cmd_set_source_eq:
  "cmd_set_source e z m n s =
   sent_and_published e
     (''SA\"'' @ m @ ''\">1>'' @ int_str (py_max 1 (py_min 16 n)) @ ''<CR>'')
     z ''source'' (VInt (py_max 1 (py_min 16 n))) s"
  by (simp add: cmd_set_source_def sent_and_published_def Let_def)







lemma unroutable_no_separator:
  assumes "CHR ''_'' \<notin> set link"
  shows "handle_link_command e link v s = Inr s"
  using assms by (simp add: handle_link_command_def split_once_no_sep)



section \<open>Facts about a configuration without one zone\<close>










section \<open>Facts about the sample installations\<close>

lemma connect_sample: "connect open_env (init (serial_config zs) False) = Inr (live_serial zs)"
  by (simp add: connect_def conn_type_def connect_serial_def init_def serial_config_def
      open_env_def live_serial_def Let_def)

lemma conn_type_live: "conn_type (live_serial zs) = ''serial''"
  by (simp add: conn_type_def live_serial_def serial_config_def)

lemma get_zone_live: "get_zone_config (live_serial zs) z = find_zone zs z"
  by (simp add: get_zone_config_def live_serial_def serial_config_def)

lemma connect_live_serial:
  "connect open_env (live_serial zs) =
     Inr ((live_serial zs)\<lparr>serial_conn := Bound (Some 1),
            events := [SerialOpen ''/dev/ttyUSB0'' 9600 0, SerialOpen ''/dev/ttyUSB0'' 9600 1],
            next_handle := 2\<rparr>)"
proof -
  have a: "connect open_env (live_serial zs) = connect_serial open_env (live_serial zs)"
    by (simp add: connect_def conn_type_live)
  show ?thesis unfolding a
    by (simp add: connect_serial_def live_serial_def serial_config_def open_env_def Let_def)
qed

lemma connect_tcp_sample: "connect open_env (init (tcp_config zs) False) = Inr (live_tcp zs)"
  by (simp add: connect_def conn_type_def connect_tcp_def init_def tcp_config_def
      open_env_def live_tcp_def Let_def)

lemma conn_type_live_tcp: "conn_type (live_tcp zs) = ''tcp''"
  by (simp add: conn_type_def live_tcp_def tcp_config_def)

lemma get_zone_live_tcp: "get_zone_config (live_tcp zs) z = find_zone zs z"
  by (simp add: get_zone_config_def live_tcp_def tcp_config_def)

lemma conn_type_bridge: "conn_type (init (bridge_config zs) m) = ''bridge''"
  by (simp add: conn_type_def init_def bridge_config_def)

lemma connect_live_tcp:
  "connect open_env (live_tcp zs) =
     Inr ((live_tcp zs)\<lparr>reader := Bound (Some 1), writer := Bound (Some 1),
            events := [TcpOpen ''192.168.1.50'' ''10055'' 0, TcpOpen ''192.168.1.50'' ''10055'' 1],
            next_handle := 2\<rparr>)"
proof -
  have a: "connect open_env (live_tcp zs) = connect_tcp open_env (live_tcp zs)"
    by (simp add: connect_def conn_type_live_tcp)
  show ?thesis unfolding a
    by (simp add: connect_tcp_def live_tcp_def tcp_config_def open_env_def Let_def)
qed

lemma handle_volume_live:
  assumes fz: "find_zone zs z = Some zc" and nz: "CHR ''_'' \<notin> set z"
    and vm: "volume_module zc = Some m"
    and c: "c = ''volume'' \<or> c = ''set_volume''"
    and n: "- 60 \<le> n" "n \<le> 12"
  shows "handle_link_command open_env (z @ ''_'' @ c) (VInt n) (live_serial zs) =
     Inr ((live_serial zs)\<lparr>events :=
            [SerialOpen ''/dev/ttyUSB0'' 9600 0,
             SerialWrite 0
               (py_replace ''<CR>'' [CR]
                  (''SA\"'' @ m @ ''\">1>'' @ float_str open_env (of_int n)) @ [CR]),
             PublishState z ''volume'' (VFloat (of_int n))]\<rparr>)"
proof -
  let ?s = "live_serial zs"
  let ?body = "''SA\"'' @ m @ ''\">1>'' @ float_str open_env (of_int n)"
  have sp: "split_once CHR ''_'' (z @ ''_'' @ c) = [z, c]"
    using split_once_append [OF nz, of c] by simp
  have g: "get_zone_config ?s z = Some zc"
    using fz by (simp add: get_zone_live)
  have ne: "zone_nonempty zc" using g by (rule get_zone_config_nonempty)
  have "\<bar>n\<bar> \<le> 60" using n by simp
  then have small: "\<bar>n\<bar> \<le> 2 ^ 53" by simp
  have tf: "to_float open_env (VInt n) = Inr (of_int n)"
    using small by simp
  have h: "handle_link_command open_env (z @ ''_'' @ c) (VInt n) ?s =
           cmd_set_volume open_env z m (of_int n) ?s"
    unfolding handle_link_command_def sp using g ne vm c tf
    by (simp add: get_or_def)
  have lo: "- 121 / 2 \<le> (of_int n :: rat)"
  proof -
    have "(- 60 :: rat) \<le> of_int n" using n(1) by (metis of_int_le_iff of_int_minus of_int_numeral)
    then show ?thesis by simp
  qed
  have hi: "(of_int n :: rat) \<le> 12" using n(2) by simp
  have cl: "py_max (- 121 / 2) (py_min 12 (of_int n :: rat)) = of_int n"
    using lo hi by (auto simp: py_max_def py_min_def)
  have c1: "cmd_set_volume open_env z m (of_int n) ?s =
            sent_and_published open_env (?body @ ''<CR>'') z ''volume'' (VFloat (of_int n)) ?s"
    unfolding cmd_set_volume_eq cl by simp
  have l: "serial_conn ?s = Bound (Some 0)"
    by (simp add: live_serial_def)
  have ok: "serial_write_ok open_env h bs" for h bs
    by (simp add: open_env_def)
  have snd: "send_command open_env (?body @ ''<CR>'') ?s =
             Inr (?s\<lparr>events := events ?s @
                    [SerialWrite 0 (py_replace ''<CR>'' [CR] ?body @ [CR])]\<rparr>)"
    unfolding send_command_serial_live [OF conn_type_live l] py_replace_CR_end
    by (simp only: ok if_True)
  have ev: "events ?s = [SerialOpen ''/dev/ttyUSB0'' 9600 0]"
    by (simp add: live_serial_def)
  show ?thesis
    unfolding h c1 sent_and_published_def snd
    by (simp add: publish_state_def ev del: append.simps)
qed




section \<open>Facts about the receive loop\<close>

lemma listen_silence: "listen body limit now [] devices = Inr devices"
proof (induction "nat (limit - now)" arbitrary: now rule: less_induct)
  case less
  show ?case
  proof (cases "now < limit")
    case True
    have "nat (limit - (now + poll_interval)) < nat (limit - now)"
      using True by (simp add: poll_interval_def)
    then have "listen body limit (now + poll_interval) [] devices = Inr devices"
      by (rule less)
    then show ?thesis using True by (subst listen.simps) simp
  next
    case False
    then show ?thesis by (subst listen.simps) simp
  qed
qed

lemma listen_single:
  assumes "0 < limit" and "body ds ip = Inr found"
  shows "listen body limit 0 [Packet d ds ip] [] = Inr found"
  using assms by (subst listen.simps) (simp add: listen_silence)

lemma listen_single_late:
  assumes "\<not> 0 < limit"
  shows "listen body limit 0 script [] = Inr []"
  using assms by (subst listen.simps) simp

lemma listen_single_raise:
  assumes "0 < limit" and "body ds ip = Inl err"
  shows "listen body limit 0 (Packet d ds ip # rest) [] = Inl err"
  using assms by (subst listen.simps) simp

lemma empire_body_total: "\<exists>found. empire_body loads ds ip = Inr found"
  by (simp add: empire_body_def split: sum.splits option.splits)

lemma empire_session_returns: "\<exists>devices. listen (empire_body loads) limit now script acc = Inr devices"
proof (induction "empire_body loads" limit now script acc rule: listen.induct)
  case (1 limit now script devices)
  show ?case
  proof (cases "now < limit")
    case False
    then show ?thesis by (subst listen.simps) simp
  next
    case True
    show ?thesis
    proof (cases script)
      case Nil
      then show ?thesis using True "1.hyps"(1) by (subst listen.simps) simp
    next
      case (Cons a rest)
      show ?thesis
      proof (cases a)
        case Silence
        then show ?thesis using True Cons "1.hyps"(2) by (subst listen.simps) simp
      next
        case (Packet d ds ip)
        obtain found where f: "empire_body loads ds ip = Inr found"
          using empire_body_total by blast
        then show ?thesis using True Cons Packet "1.hyps"(3) by (subst listen.simps) simp
      qed
    qed
  qed
qed

lemma empire_discover_returns: "\<exists>devices. discover loads timeout script = Inr devices"
  unfolding discover_def by (rule empire_session_returns)

lemma empire_body_accept:
  "(\<exists>dev. empire_body loads ds ip = Inr [dev]) \<longleftrightarrow>
   (utf8_valid ds \<and> (\<exists>kv. loads ds = Some (JObj kv) \<and>
                          map_of kv ''type'' = Some (JStr ''empire_bridge'')))"
  by (auto simp: empire_body_def empire_try_def decode_utf8_def
      split: option.splits json.splits sum.splits if_splits)

lemma empire_body_reject:
  assumes "\<not> (utf8_valid ds \<and> (\<exists>kv. loads ds = Some (JObj kv) \<and>
                          map_of kv ''type'' = Some (JStr ''empire_bridge'')))"
  shows "empire_body loads ds ip = Inr []"
  using assms
  by (auto simp: empire_body_def empire_try_def decode_utf8_def
      split: option.splits json.splits sum.splits if_splits)

lemma empire_body_device:
  assumes "utf8_valid ds" and "loads ds = Some (JObj kv)"
    and "map_of kv ''type'' = Some (JStr ''empire_bridge'')"
  shows "empire_body loads ds ip =
         Inr [\<lparr>b_name = dict_get kv ''name'' (JStr ''Empire Bridge''),
               b_ip = ip,
               b_port = dict_get kv ''port'' (JInt 5000),
               b_model = dict_get kv ''model'' (JStr ''Unknown''),
               b_version = dict_get kv ''version'' (JStr ''Unknown''),
               b_serial = dict_get kv ''serial'' (JStr ''Unknown''),
               b_capabilities = dict_get kv ''capabilities'' (JArr [])\<rparr>]"
  using assms by (simp add: empire_body_def empire_try_def decode_utf8_def)

lemma utf8_sample_reply: "utf8_valid sample_reply"
  by (simp add: sample_reply_def byte_in_def)

lemma utf8_untyped_reply: "utf8_valid untyped_reply"
  by (simp add: untyped_reply_def byte_in_def)

section \<open>Facts about iTach replies\<close>

lemma last_value_Nil: "last_value wanted [] = None"
  by (simp add: last_value_def)

lemma last_value_Cons_no: "\<not> wanted p \<Longrightarrow> last_value wanted (p # ps) = last_value wanted ps"
  by (simp add: last_value_def)

lemma last_value_Cons_yes:
  "wanted p \<Longrightarrow>
   last_value wanted (p # ps) =
     Some (case last_value wanted ps of None \<Rightarrow> py_split CHR ''='' p ! 1 | Some v \<Rightarrow> v)"
  by (cases "filter wanted ps") (simp_all add: last_value_def)

lemma last_value_hit:
  assumes "wanted p" and "\<forall>q\<in>set after. \<not> wanted q"
  shows "last_value wanted (before @ p # after) = Some (py_split CHR ''='' p ! 1)"
proof -
  have "filter wanted after = []" using assms(2) by (simp add: filter_empty_conv)
  then have f: "filter wanted (before @ p # after) = filter wanted before @ [p]"
    using assms(1) by simp
  show ?thesis
    unfolding last_value_def f by (cases "filter wanted before") simp_all
qed

lemma keyed_part_splits:
  assumes "contains (key @ ''='') part"
  shows "\<exists>k others. py_split CHR ''='' part = k # (py_split CHR ''='' part ! 1) # others"
proof -
  have "CHR ''='' \<in> set part" using contains_set [OF assms] by auto
  then obtain k v r where "py_split CHR ''='' part = k # v # r"
    using py_split_two by blast
  then show ?thesis by simp
qed

lemma scan_parts_result:
  "scan_parts ip parts dev =
     Inr (dev\<lparr>i_model :=
                (case last_value (\<lambda>p. contains ''Model='' p \<and> \<not> contains ''UUID='' p) parts of
                   None \<Rightarrow> i_model dev | Some m \<Rightarrow> m),
              i_uuid :=
                (case last_value (contains ''UUID='') parts of
                   None \<Rightarrow> i_uuid dev | Some u \<Rightarrow> u),
              i_name :=
                (case last_value (\<lambda>p. contains ''Model='' p \<and> \<not> contains ''UUID='' p) parts of
                   None \<Rightarrow> i_name dev | Some m \<Rightarrow> ''iTach '' @ m @ '' at '' @ ip)\<rparr>)"
proof (induction parts arbitrary: dev)
  case Nil
  then show ?case by (simp add: last_value_Nil)
next
  case (Cons part parts)
  let ?U = "contains ''UUID=''"
  let ?M = "\<lambda>p. contains ''Model='' p \<and> \<not> contains ''UUID='' p"
  let ?v = "py_split CHR ''='' part ! 1"
  show ?case
  proof (cases "?U part")
    case True
    from keyed_part_splits [of "''UUID''" part] True
    obtain k others where sp: "py_split CHR ''='' part = k # ?v # others"
      by auto
    have step: "scan_parts ip (part # parts) dev = scan_parts ip parts (dev\<lparr>i_uuid := ?v\<rparr>)"
      using True by (subst scan_parts.simps, subst sp) simp
    have lu: "last_value ?U (part # parts) =
              Some (case last_value ?U parts of None \<Rightarrow> ?v | Some u \<Rightarrow> u)"
      using True by (rule last_value_Cons_yes)
    have lm: "last_value ?M (part # parts) = last_value ?M parts"
      using True by (simp add: last_value_Cons_no)
    show ?thesis
      unfolding step Cons.IH lu lm
      by (cases "last_value ?U parts"; cases "last_value ?M parts") simp_all
  next
    case noU: False
    have lu: "last_value ?U (part # parts) = last_value ?U parts"
      using noU by (simp add: last_value_Cons_no)
    show ?thesis
    proof (cases "contains ''Model='' part")
      case True
      from keyed_part_splits [of "''Model''" part] True
      obtain k others where sp: "py_split CHR ''='' part = k # ?v # others"
        by auto
      have step: "scan_parts ip (part # parts) dev =
                  scan_parts ip parts
                    (dev\<lparr>i_model := ?v, i_name := ''iTach '' @ ?v @ '' at '' @ ip\<rparr>)"
        using True noU by (subst scan_parts.simps, subst sp) simp
      have lm: "last_value ?M (part # parts) =
                Some (case last_value ?M parts of None \<Rightarrow> ?v | Some m \<Rightarrow> m)"
        using True noU by (intro last_value_Cons_yes) simp
      show ?thesis
        unfolding step Cons.IH lu lm
        by (cases "last_value ?U parts"; cases "last_value ?M parts") simp_all
    next
      case False
      have step: "scan_parts ip (part # parts) dev = scan_parts ip parts dev"
        using False noU by simp
      have lm: "last_value ?M (part # parts) = last_value ?M parts"
        using False by (simp add: last_value_Cons_no)
      show ?thesis unfolding step Cons.IH lu lm ..
    qed
  qed
qed

lemma itach_try_valid:
  assumes "utf8_valid ds"
  shows "itach_try ds ip =
         (if contains ''AMXB'' ds then Inr (Some (itach_entry ds ip)) else Inr None)"
  using assms
  by (simp add: itach_try_def decode_utf8_def scan_parts_result itach_entry_def Let_def
      split: option.splits)

lemma itach_body_valid:
  assumes "utf8_valid ds"
  shows "itach_body ds ip = Inr (itach_entries [(ds, ip)])"
  using assms by (simp add: itach_body_def itach_try_valid itach_entries_def)

lemma itach_entries_Cons:
  "itach_entries ((ds, ip) # rest) = itach_entries [(ds, ip)] @ itach_entries rest"
  by (simp add: itach_entries_def)

lemma listen_itach:
  assumes "\<forall>(ds, ip)\<in>set (heard limit now script). utf8_valid ds"
  shows "listen itach_body limit now script acc =
         Inr (acc @ itach_entries (heard limit now script))"
  using assms
proof (induction script arbitrary: now acc)
  case Nil
  then show ?case by (simp add: listen_silence itach_entries_def)
next
  case (Cons a rest)
  show ?case
  proof (cases "now < limit")
    case False
    then show ?thesis
      by (subst listen.simps) (cases a; simp add: itach_entries_def)
  next
    case True
    show ?thesis
    proof (cases a)
      case Silence
      have "\<forall>(ds, ip)\<in>set (heard limit (now + poll_interval) rest). utf8_valid ds"
        using Cons.prems True Silence by simp
      from Cons.IH [OF this] show ?thesis
        using True Silence by (subst listen.simps) simp
    next
      case (Packet d ds ip)
      have v: "utf8_valid ds" using Cons.prems True Packet by simp
      have "\<forall>(ds, ip)\<in>set (heard limit (now + int d) rest). utf8_valid ds"
        using Cons.prems True Packet by simp
      from Cons.IH [OF this, of "acc @ itach_entries [(ds, ip)]"] show ?thesis
        using True Packet
        by (subst listen.simps)
           (simp add: itach_body_valid [OF v] itach_entries_Cons [of ds ip "heard _ _ _"])
    qed
  qed
qed

lemma sample_reply_entry:
  assumes nu: "\<not> contains ''UUID='' post" and nm: "\<not> contains ''Model='' post"
  shows "i_uuid (itach_entry (pre @ ''AMXB<-UUID=abc-Model=EX1-'' @ post) ip) = ''abc'' \<and>
         i_model (itach_entry (pre @ ''AMXB<-UUID=abc-Model=EX1-'' @ post) ip) = ''EX1''"
proof -
  let ?U = "contains ''UUID=''"
  let ?M = "\<lambda>p. contains ''Model='' p \<and> \<not> contains ''UUID='' p"
  let ?A = "py_split CHR ''-'' (pre @ ''AMXB<'')"
  let ?P = "py_split CHR ''-'' post"
  have ds: "pre @ ''AMXB<-UUID=abc-Model=EX1-'' @ post =
            (pre @ ''AMXB<'') @ CHR ''-'' # (''UUID=abc'' @ CHR ''-'' #
               (''Model=EX1'' @ CHR ''-'' # post))"
    by simp
  have parts: "py_split CHR ''-'' (pre @ ''AMXB<-UUID=abc-Model=EX1-'' @ post) =
               ?A @ ''UUID=abc'' # ''Model=EX1'' # ?P"
    unfolding ds py_split_append_sep by simp
  have pu: "\<forall>q\<in>set ?P. \<not> ?U q" using nu contains_part by blast
  have pm: "\<forall>q\<in>set ?P. \<not> ?M q" using nm contains_part by blast
  have u: "last_value ?U (?A @ ''UUID=abc'' # ''Model=EX1'' # ?P) =
           Some (py_split CHR ''='' ''UUID=abc'' ! 1)"
    by (rule last_value_hit) (use pu in simp_all)
  have "last_value ?M ((?A @ [''UUID=abc'']) @ ''Model=EX1'' # ?P) =
           Some (py_split CHR ''='' ''Model=EX1'' ! 1)"
    by (rule last_value_hit) (use pm in simp_all)
  then have m: "last_value ?M (?A @ ''UUID=abc'' # ''Model=EX1'' # ?P) =
           Some (py_split CHR ''='' ''Model=EX1'' ! 1)"
    by simp
  show ?thesis
    unfolding itach_entry_def Let_def parts u m by simp
qed

lemma itach_entry_fixed: "i_ip (itach_entry ds ip) = ip \<and> i_port (itach_entry ds ip) = 4999"
  by (simp add: itach_entry_def Let_def)

section \<open>The transport\<close>

text \<open>
  C1, evaluated: a serial instance is connected and disconnected; \<open>serial_conn\<close> is
  then \<open>None\<close>. The following \<open>send_command\<close> finds the attribute present, so it does
  not call \<open>connect\<close>, and with no handle to write on it returns having written nothing:
  the trace holds the first open and the close only.
\<close>

theorem send_after_disconnect_does_not_reconnect:
  "connect open_env (init (serial_config [master_zone]) False) = Inr (live_serial [master_zone])
   \<and> serial_conn (disconnect (live_serial [master_zone])) = Bound None
   \<and> send_command open_env ''SA\"Main Volume\">1>-10.0<CR>'' (disconnect (live_serial [master_zone]))
       = Inr (disconnect (live_serial [master_zone]))
   \<and> events (disconnect (live_serial [master_zone])) =
       [SerialOpen ''/dev/ttyUSB0'' 9600 0, SerialClose 0]"
proof -
  have d: "disconnect (live_serial [master_zone]) =
           (live_serial [master_zone])\<lparr>serial_conn := Bound None,
              events := [SerialOpen ''/dev/ttyUSB0'' 9600 0, SerialClose 0]\<rparr>"
    by (simp add: disconnect_def live_serial_def Let_def)
  have s: "send_command open_env ''SA\"Main Volume\">1>-10.0<CR>''
             (disconnect (live_serial [master_zone])) = Inr (disconnect (live_serial [master_zone]))"
    unfolding d by (simp add: send_command_def Let_def conn_type_def live_serial_def serial_config_def)
  show ?thesis using connect_sample s by (simp add: d)
qed

text \<open>
  C9 as stated fails: on a connected serial instance a second \<open>connect()\<close> opens the
  port again and binds the instance to the new handle, so the state is not what it was.
\<close>

theorem second_connect_counterexample:
  "connect open_env (live_serial [master_zone]) =
     Inr ((live_serial [master_zone])\<lparr>serial_conn := Bound (Some 1),
            events := [SerialOpen ''/dev/ttyUSB0'' 9600 0, SerialOpen ''/dev/ttyUSB0'' 9600 1],
            next_handle := 2\<rparr>)
   \<and> connect open_env (live_serial [master_zone]) \<noteq> Inr (live_serial [master_zone])"
proof -
  have c: "(live_serial [master_zone])\<lparr>serial_conn := Bound (Some 1),
            events := [SerialOpen ''/dev/ttyUSB0'' 9600 0, SerialOpen ''/dev/ttyUSB0'' 9600 1],
            next_handle := 2\<rparr> \<noteq> live_serial [master_zone]"
    by (simp add: live_serial_def)
  show ?thesis unfolding connect_live_serial using c by simp
qed

text \<open>
  C9, amended: \<open>connect()\<close> leaves the instance as it is only when the connection type
  is neither \<open>serial\<close> nor \<open>tcp\<close> (the \<open>bridge\<close> type in particular). For \<open>serial\<close>
  and \<open>tcp\<close> a \<open>connect()\<close> that returns has opened a new transport and bound the
  instance to it; nothing is closed.
\<close>

theorem connect_again_opens_new_transport:
  "(conn_type s \<noteq> ''serial'' \<and> conn_type s \<noteq> ''tcp'' \<longrightarrow> connect e s = Inr s)
   \<and> (conn_type s = ''serial'' \<and> connect e s = Inr s' \<longrightarrow>
        serial_conn s' = Bound (Some (next_handle s)) \<and>
        (\<exists>p b. events s' = events s @ [SerialOpen p b (next_handle s)]))
   \<and> (conn_type s = ''tcp'' \<and> connect e s = Inr s' \<longrightarrow>
        writer s' = Bound (Some (next_handle s)) \<and>
        reader s' = Bound (Some (next_handle s)) \<and>
        (\<exists>hst p. events s' = events s @ [TcpOpen hst p (next_handle s)]))"
  by (auto simp: connect_def connect_serial_def connect_tcp_def Let_def
      split: option.splits if_splits)

theorem connect_again_opens_new_transport_witness:
  "connect open_env (init (bridge_config [master_zone]) True) =
     Inr (init (bridge_config [master_zone]) True)
   \<and> serial_conn (live_serial [master_zone]) = Bound (Some 0)
   \<and> connect open_env (live_serial [master_zone]) =
       Inr ((live_serial [master_zone])\<lparr>serial_conn := Bound (Some 1),
              events := [SerialOpen ''/dev/ttyUSB0'' 9600 0, SerialOpen ''/dev/ttyUSB0'' 9600 1],
              next_handle := 2\<rparr>)
   \<and> serial_conn ((live_serial [master_zone])\<lparr>serial_conn := Bound (Some 1),
              events := [SerialOpen ''/dev/ttyUSB0'' 9600 0, SerialOpen ''/dev/ttyUSB0'' 9600 1],
              next_handle := 2\<rparr>) = Bound (Some (next_handle (live_serial [master_zone])))
   \<and> writer (live_tcp [master_zone]) = Bound (Some 0)
   \<and> connect open_env (live_tcp [master_zone]) =
       Inr ((live_tcp [master_zone])\<lparr>reader := Bound (Some 1), writer := Bound (Some 1),
              events := [TcpOpen ''192.168.1.50'' ''10055'' 0,
                         TcpOpen ''192.168.1.50'' ''10055'' 1],
              next_handle := 2\<rparr>)
   \<and> writer ((live_tcp [master_zone])\<lparr>reader := Bound (Some 1), writer := Bound (Some 1),
              events := [TcpOpen ''192.168.1.50'' ''10055'' 0,
                         TcpOpen ''192.168.1.50'' ''10055'' 1],
              next_handle := 2\<rparr>) = Bound (Some (next_handle (live_tcp [master_zone])))"
proof -
  let ?s' = "(live_serial [master_zone])\<lparr>serial_conn := Bound (Some 1),
              events := [SerialOpen ''/dev/ttyUSB0'' 9600 0, SerialOpen ''/dev/ttyUSB0'' 9600 1],
              next_handle := 2\<rparr>"
  let ?t' = "(live_tcp [master_zone])\<lparr>reader := Bound (Some 1), writer := Bound (Some 1),
              events := [TcpOpen ''192.168.1.50'' ''10055'' 0,
                         TcpOpen ''192.168.1.50'' ''10055'' 1],
              next_handle := 2\<rparr>"
  have nb: "conn_type (init (bridge_config [master_zone]) True) \<noteq> ''serial'' \<and>
            conn_type (init (bridge_config [master_zone]) True) \<noteq> ''tcp''"
    by (simp add: conn_type_bridge)
  have b: "connect open_env (init (bridge_config [master_zone]) True) =
           Inr (init (bridge_config [master_zone]) True)"
    by (rule connect_again_opens_new_transport
          [where s = "init (bridge_config [master_zone]) True" and e = open_env,
           THEN conjunct1, rule_format, OF nb])
  have c: "connect open_env (live_serial [master_zone]) = Inr ?s'"
    by (rule connect_live_serial)
  have hs: "conn_type (live_serial [master_zone]) = ''serial'' \<and>
            connect open_env (live_serial [master_zone]) = Inr ?s'"
    using c conn_type_live by simp
  have l: "serial_conn (live_serial [master_zone]) = Bound (Some 0)"
    by (simp add: live_serial_def)
  have s: "serial_conn ?s' = Bound (Some (next_handle (live_serial [master_zone])))"
    using connect_again_opens_new_transport
      [where s = "live_serial [master_zone]" and e = open_env and s' = ?s',
       THEN conjunct2, THEN conjunct1, rule_format, OF hs]
    by (rule conjunct1)
  have ct: "connect open_env (live_tcp [master_zone]) = Inr ?t'"
    by (rule connect_live_tcp)
  have ht: "conn_type (live_tcp [master_zone]) = ''tcp'' \<and>
            connect open_env (live_tcp [master_zone]) = Inr ?t'"
    using ct conn_type_live_tcp by simp
  have lt: "writer (live_tcp [master_zone]) = Bound (Some 0)"
    by (simp add: live_tcp_def)
  have t: "writer ?t' = Bound (Some (next_handle (live_tcp [master_zone])))"
    using connect_again_opens_new_transport
      [where s = "live_tcp [master_zone]" and e = open_env and s' = ?t',
       THEN conjunct2, THEN conjunct2, rule_format, OF ht]
    by (rule conjunct1)
  show ?thesis using b l c s lt ct t by (intro conjI)
qed

section \<open>The command grammar\<close>



section \<open>The dispatcher\<close>




text \<open>
  C5: the volume is clamped before it is encoded: below -60.5 the command carries
  \<open>-60.5\<close>, above 12.0 it carries \<open>12.0\<close>, and a level within the range is passed
  unchanged; a source number below 1 becomes 1, one above 16 becomes 16, and one within
  the range is passed unchanged.
\<close>

theorem values_clamped_before_encoding:
  "(x < - 121 / 2 \<longrightarrow>
      cmd_set_volume e z m x s =
        sent_and_published e (''SA\"'' @ m @ ''\">1>-60.5<CR>'') z ''volume'' (VFloat (- 121 / 2)) s)
   \<and> (12 < x \<longrightarrow>
      cmd_set_volume e z m x s =
        sent_and_published e (''SA\"'' @ m @ ''\">1>12.0<CR>'') z ''volume'' (VFloat 12) s)
   \<and> (- 121 / 2 \<le> x \<and> x \<le> 12 \<longrightarrow>
      py_max (- 121 / 2) (py_min 12 x) = x \<and>
      cmd_set_volume e z m x s =
        sent_and_published e (''SA\"'' @ m @ ''\">1>'' @ float_str e x @ ''<CR>'') z ''volume'' (VFloat x) s)
   \<and> (n < 1 \<longrightarrow>
      cmd_set_source e z m n s =
        sent_and_published e (''SA\"'' @ m @ ''\">1>1<CR>'') z ''source'' (VInt 1) s)
   \<and> (16 < n \<longrightarrow>
      cmd_set_source e z m n s =
        sent_and_published e (''SA\"'' @ m @ ''\">1>16<CR>'') z ''source'' (VInt 16) s)
   \<and> (1 \<le> n \<and> n \<le> 16 \<longrightarrow>
      py_max 1 (py_min 16 n) = n \<and>
      cmd_set_source e z m n s =
        sent_and_published e (''SA\"'' @ m @ ''\">1>'' @ int_str n @ ''<CR>'') z ''source'' (VInt n) s)"
proof -
  have lo: "x < - 121 / 2 \<Longrightarrow> py_max (- 121 / 2) (py_min 12 x) = - 121 / 2"
    by (simp add: py_max_def py_min_def)
  have hi: "12 < x \<Longrightarrow> py_max (- 121 / 2) (py_min 12 x) = 12"
    by (simp add: py_max_def py_min_def)
  have mid: "- 121 / 2 \<le> x \<and> x \<le> 12 \<Longrightarrow> py_max (- 121 / 2) (py_min 12 x) = x"
    by (auto simp: py_max_def py_min_def)
  have slo: "n < 1 \<Longrightarrow> py_max 1 (py_min 16 n) = 1"
    by (simp add: py_max_def py_min_def)
  have shi: "16 < n \<Longrightarrow> py_max 1 (py_min 16 n) = 16"
    by (simp add: py_max_def py_min_def)
  have smid: "1 \<le> n \<and> n \<le> 16 \<Longrightarrow> py_max 1 (py_min 16 n) = n"
    by (auto simp: py_max_def py_min_def)
  have fl: "float_str e (- (121 / 2)) = ''-60.5''"
    using float_str_low [of e] by simp
  show ?thesis
    unfolding cmd_set_volume_eq cmd_set_source_eq
    using lo hi mid slo shi smid
    by (auto simp: fl float_str_high int_str_1 int_str_16)
qed

theorem values_clamped_before_encoding_witness:
  "cmd_set_volume open_env ''master'' ''Main Volume'' (- 100) (live_serial [master_zone]) =
     sent_and_published open_env ''SA\"Main Volume\">1>-60.5<CR>'' ''master'' ''volume''
       (VFloat (- 121 / 2)) (live_serial [master_zone])
   \<and> cmd_set_volume open_env ''master'' ''Main Volume'' 100 (live_serial [master_zone]) =
     sent_and_published open_env ''SA\"Main Volume\">1>12.0<CR>'' ''master'' ''volume''
       (VFloat 12) (live_serial [master_zone])
   \<and> cmd_set_volume open_env ''master'' ''Main Volume'' (- 10) (live_serial [master_zone]) =
     sent_and_published open_env ''SA\"Main Volume\">1>-10.0<CR>'' ''master'' ''volume''
       (VFloat (- 10)) (live_serial [master_zone])
   \<and> cmd_set_source open_env ''master'' ''Selector 1'' 0 (live_serial [master_zone]) =
     sent_and_published open_env ''SA\"Selector 1\">1>1<CR>'' ''master'' ''source''
       (VInt 1) (live_serial [master_zone])
   \<and> cmd_set_source open_env ''master'' ''Selector 1'' 99 (live_serial [master_zone]) =
     sent_and_published open_env ''SA\"Selector 1\">1>16<CR>'' ''master'' ''source''
       (VInt 16) (live_serial [master_zone])
   \<and> cmd_set_source open_env ''master'' ''Selector 1'' 4 (live_serial [master_zone]) =
     sent_and_published open_env ''SA\"Selector 1\">1>4<CR>'' ''master'' ''source''
       (VInt 4) (live_serial [master_zone])"
proof -
  note low = values_clamped_before_encoding
    [where x = "- 100" and n = 0 and e = open_env and z = "''master''"
       and s = "live_serial [master_zone]"]
  note high = values_clamped_before_encoding
    [where x = 100 and n = 99 and e = open_env and z = "''master''"
       and s = "live_serial [master_zone]"]
  note mid = values_clamped_before_encoding
    [where x = "- 10" and n = 4 and e = open_env and z = "''master''"
       and s = "live_serial [master_zone]"]
  have four: "int_str 4 = ''4''" by code_simp
  have a: "cmd_set_volume open_env ''master'' ''Main Volume'' (- 100) (live_serial [master_zone]) =
     sent_and_published open_env ''SA\"Main Volume\">1>-60.5<CR>'' ''master'' ''volume''
       (VFloat (- 121 / 2)) (live_serial [master_zone])"
    using low [where m = "''Main Volume''"] by simp
  have b: "cmd_set_volume open_env ''master'' ''Main Volume'' 100 (live_serial [master_zone]) =
     sent_and_published open_env ''SA\"Main Volume\">1>12.0<CR>'' ''master'' ''volume''
       (VFloat 12) (live_serial [master_zone])"
    using high [where m = "''Main Volume''"] by simp
  have c: "cmd_set_volume open_env ''master'' ''Main Volume'' (- 10) (live_serial [master_zone]) =
     sent_and_published open_env ''SA\"Main Volume\">1>-10.0<CR>'' ''master'' ''volume''
       (VFloat (- 10)) (live_serial [master_zone])"
    using mid [where m = "''Main Volume''"] by (simp add: float_str_minus_10)
  have d: "cmd_set_source open_env ''master'' ''Selector 1'' 0 (live_serial [master_zone]) =
     sent_and_published open_env ''SA\"Selector 1\">1>1<CR>'' ''master'' ''source''
       (VInt 1) (live_serial [master_zone])"
    using low [where m = "''Selector 1''"] by simp
  have e: "cmd_set_source open_env ''master'' ''Selector 1'' 99 (live_serial [master_zone]) =
     sent_and_published open_env ''SA\"Selector 1\">1>16<CR>'' ''master'' ''source''
       (VInt 16) (live_serial [master_zone])"
    using high [where m = "''Selector 1''"] by simp
  have f: "cmd_set_source open_env ''master'' ''Selector 1'' 4 (live_serial [master_zone]) =
     sent_and_published open_env ''SA\"Selector 1\">1>4<CR>'' ''master'' ''source''
       (VInt 4) (live_serial [master_zone])"
    using mid [where m = "''Selector 1''"] by (simp add: four)
  show ?thesis using a b c d e f by blast
qed

section \<open>Links that route nowhere\<close>

text \<open>
  C4, amended: a link id without an underscore, and a link id whose part before the
  first underscore (empty or not) is the id of no configured zone or whose part after it
  is none of \<open>volume\<close>, \<open>set_volume\<close>, \<open>mute\<close>, \<open>toggle_mute\<close>, \<open>source\<close>,
  \<open>set_source\<close>, makes \<open>handle_link_command\<close> return without an exception and with
  the instance, its trace included, unchanged.
\<close>

theorem unroutable_link_is_ignored:
  assumes "CHR ''_'' \<notin> set link \<or>
           (\<exists>z c. split_once CHR ''_'' link = [z, c] \<and>
              (get_zone_config s z = None \<or>
               c \<notin> {''volume'', ''set_volume'', ''mute'', ''toggle_mute'',
                     ''source'', ''set_source''}))"
  shows "handle_link_command e link v s = Inr s"
  using assms
proof
  assume "CHR ''_'' \<notin> set link"
  then show ?thesis by (rule unroutable_no_separator)
next
  assume "\<exists>z c. split_once CHR ''_'' link = [z, c] \<and>
              (get_zone_config s z = None \<or>
               c \<notin> {''volume'', ''set_volume'', ''mute'', ''toggle_mute'',
                     ''source'', ''set_source''})"
  then obtain z c where zc: "split_once CHR ''_'' link = [z, c]"
    and bad: "get_zone_config s z = None \<or>
               c \<notin> {''volume'', ''set_volume'', ''mute'', ''toggle_mute'',
                     ''source'', ''set_source''}"
    by (elim exE conjE)
  from bad show ?thesis
  proof
    assume "get_zone_config s z = None"
    then show ?thesis using zc by (simp add: handle_link_command_def)
  next
    assume "c \<notin> {''volume'', ''set_volume'', ''mute'', ''toggle_mute'',
                     ''source'', ''set_source''}"
    then have ne: "\<not> (c = ''volume'' \<or> c = ''set_volume'')"
      "\<not> (c = ''mute'' \<or> c = ''toggle_mute'')" "\<not> (c = ''source'' \<or> c = ''set_source'')"
      by simp_all
    show ?thesis
    proof (cases "get_zone_config s z")
      case None
      then show ?thesis using zc by (simp add: handle_link_command_def)
    next
      case (Some zcfg)
      then show ?thesis using zc ne unfolding handle_link_command_def Let_def by simp
    qed
  qed
qed

text \<open>
  C4 as stated fails: \<open>_volume\<close> splits into an empty zone part and \<open>volume\<close>, which
  is not two non-empty parts, yet with a zone whose id is the empty string configured
  the command is written to the serial port and published.
\<close>

theorem empty_zone_part_counterexample:
  "split_once CHR ''_'' ''_volume'' = [Nil, ''volume'']
   \<and> handle_link_command open_env ''_volume'' (VInt 0) (live_serial [blank_zone]) =
     Inr ((live_serial [blank_zone])\<lparr>events :=
            [SerialOpen ''/dev/ttyUSB0'' 9600 0,
             SerialWrite 0 (''SA\"Main Volume\">1>0.0'' @ [CR]),
             PublishState [] ''volume'' (VFloat 0)]\<rparr>)
   \<and> handle_link_command open_env ''_volume'' (VInt 0) (live_serial [blank_zone]) \<noteq>
     Inr (live_serial [blank_zone])"
proof -
  have fz: "find_zone [blank_zone] [] = Some blank_zone"
    by (simp add: blank_zone_def)
  have vm: "volume_module blank_zone = Some ''Main Volume''"
    by (simp add: blank_zone_def master_zone_def)
  have bytes: "py_replace ''<CR>'' [CR] ''SA\"Main Volume\">1>0.0'' = ''SA\"Main Volume\">1>0.0''"
    by (simp add: py_replace.simps)
  have h: "handle_link_command open_env ''_volume'' (VInt 0) (live_serial [blank_zone]) =
     Inr ((live_serial [blank_zone])\<lparr>events :=
            [SerialOpen ''/dev/ttyUSB0'' 9600 0,
             SerialWrite 0 (''SA\"Main Volume\">1>0.0'' @ [CR]),
             PublishState [] ''volume'' (VFloat 0)]\<rparr>)"
    using handle_volume_live [OF fz _ vm, of "''volume''" 0]
    by (simp add: float_str_zero bytes)
  have d: "(live_serial [blank_zone])\<lparr>events :=
            [SerialOpen ''/dev/ttyUSB0'' 9600 0,
             SerialWrite 0 (''SA\"Main Volume\">1>0.0'' @ [CR]),
             PublishState [] ''volume'' (VFloat 0)]\<rparr> \<noteq> live_serial [blank_zone]"
    by (simp add: live_serial_def)
  show ?thesis unfolding h using d by simp
qed

theorem unroutable_link_is_ignored_witness:
  "handle_link_command open_env ''masterzone'' (VFloat (1 / 2)) (live_serial [master_zone]) =
     Inr (live_serial [master_zone])
   \<and> handle_link_command open_env ''kitchen_volume'' (VInt 3) (live_serial [master_zone]) =
     Inr (live_serial [master_zone])
   \<and> handle_link_command open_env ''master_power'' (VInt 3) (live_serial [master_zone]) =
     Inr (live_serial [master_zone])"
proof -
  have a: "handle_link_command open_env ''masterzone'' (VFloat (1 / 2)) (live_serial [master_zone]) =
     Inr (live_serial [master_zone])"
    by (rule unroutable_link_is_ignored) simp
  have k: "split_once CHR ''_'' ''kitchen_volume'' = [''kitchen'', ''volume''] \<and>
           get_zone_config (live_serial [master_zone]) ''kitchen'' = None"
    by (simp add: get_zone_live master_zone_def)
  have b: "handle_link_command open_env ''kitchen_volume'' (VInt 3) (live_serial [master_zone]) =
     Inr (live_serial [master_zone])"
    by (rule unroutable_link_is_ignored,
        intro disjI2 exI [of _ "''kitchen''"] exI [of _ "''volume''"]) (use k in simp)
  have p: "split_once CHR ''_'' ''master_power'' = [''master'', ''power''] \<and>
           ''power'' \<notin> {''volume'', ''set_volume'', ''mute'', ''toggle_mute'',
                     ''source'', ''set_source''}"
    by simp
  have c: "handle_link_command open_env ''master_power'' (VInt 3) (live_serial [master_zone]) =
     Inr (live_serial [master_zone])"
    by (rule unroutable_link_is_ignored,
        intro disjI2 exI [of _ "''master''"] exI [of _ "''power''"]) (use p in simp)
  show ?thesis using a b c by simp
qed




section \<open>Discovery sessions\<close>

text \<open>
  C2, evaluated: the single byte \<open>0xFF\<close> is not UTF-8. An iTach session that receives
  it ends with \<open>UnicodeDecodeError\<close> instead of a device list, since its loop handles
  \<open>socket.timeout\<close> only; the Empire session on the same datagram skips it and returns
  the empty list.
\<close>

theorem itach_session_raises_on_undecodable_datagram:
  "\<not> utf8_valid [CHR 0xFF]
   \<and> discover_devices True 5 [Packet 20 [CHR 0xFF] ''192.168.1.70''] = Inl UnicodeDecodeError
   \<and> discover sample_loads 5 [Packet 20 [CHR 0xFF] ''192.168.1.70''] = Inr []"
proof -
  have v: "\<not> utf8_valid [CHR 0xFF]" by (simp add: byte_in_def)
  have b: "itach_body [CHR 0xFF] ''192.168.1.70'' = Inl UnicodeDecodeError"
    using v by (simp add: itach_body_def itach_try_def decode_utf8_def)
  have i: "discover_devices True 5 [Packet 20 [CHR 0xFF] ''192.168.1.70''] = Inl UnicodeDecodeError"
    unfolding discover_devices_def if_True
    by (rule listen_single_raise
          [where body = itach_body and ds = "[CHR 0xFF]" and ip = "''192.168.1.70''", OF _ b])
       simp
  have e: "empire_body sample_loads [CHR 0xFF] ''192.168.1.70'' = Inr []"
    using v by (intro empire_body_reject) simp
  have d: "discover sample_loads 5 [Packet 20 [CHR 0xFF] ''192.168.1.70''] = Inr []"
    unfolding discover_def
    by (rule listen_single
          [where body = "empire_body sample_loads" and ds = "[CHR 0xFF]"
             and ip = "''192.168.1.70''", OF _ e])
       simp
  show ?thesis using v i d by simp
qed

text \<open>
  C6: a datagram is taken as a device exactly when it is well-formed UTF-8 and
  \<open>json.loads\<close> gives an object whose \<open>type\<close> is the string \<open>empire_bridge\<close>. A
  session with a positive timeout that receives one such reply, with a \<open>name\<close> and a
  \<open>port\<close>, from an address returns exactly one device carrying that address, port and
  name; a session whose one datagram is not such a reply returns no device.
\<close>

theorem empire_accepts_typed_replies_only:
  "((\<exists>dev. empire_body loads ds ip = Inr [dev]) \<longleftrightarrow>
      (utf8_valid ds \<and> (\<exists>kv. loads ds = Some (JObj kv) \<and>
                             map_of kv ''type'' = Some (JStr ''empire_bridge''))))
   \<and> (0 < timeout \<and> utf8_valid ds \<and> loads ds = Some (JObj kv) \<and>
       map_of kv ''type'' = Some (JStr ''empire_bridge'') \<and>
       map_of kv ''name'' = Some name \<and> map_of kv ''port'' = Some prt \<longrightarrow>
       (\<exists>dev. discover loads timeout [Packet d ds ip] = Inr [dev] \<and>
              b_ip dev = ip \<and> b_port dev = prt \<and> b_name dev = name))
   \<and> (\<not> (utf8_valid ds \<and> (\<exists>kv. loads ds = Some (JObj kv) \<and>
                             map_of kv ''type'' = Some (JStr ''empire_bridge''))) \<longrightarrow>
       discover loads timeout [Packet d ds ip] = Inr [])"
proof (intro conjI impI)
  show "(\<exists>dev. empire_body loads ds ip = Inr [dev]) \<longleftrightarrow>
      (utf8_valid ds \<and> (\<exists>kv. loads ds = Some (JObj kv) \<and>
                             map_of kv ''type'' = Some (JStr ''empire_bridge'')))"
    by (rule empire_body_accept)
next
  assume a: "0 < timeout \<and> utf8_valid ds \<and> loads ds = Some (JObj kv) \<and>
       map_of kv ''type'' = Some (JStr ''empire_bridge'') \<and>
       map_of kv ''name'' = Some name \<and> map_of kv ''port'' = Some prt"
  let ?dev = "\<lparr>b_name = dict_get kv ''name'' (JStr ''Empire Bridge''),
               b_ip = ip,
               b_port = dict_get kv ''port'' (JInt 5000),
               b_model = dict_get kv ''model'' (JStr ''Unknown''),
               b_version = dict_get kv ''version'' (JStr ''Unknown''),
               b_serial = dict_get kv ''serial'' (JStr ''Unknown''),
               b_capabilities = dict_get kv ''capabilities'' (JArr [])\<rparr>"
  have b: "empire_body loads ds ip = Inr [?dev]"
    using a by (intro empire_body_device) simp_all
  have l: "0 < timeout * 1000" using a by simp
  have "discover loads timeout [Packet d ds ip] = Inr [?dev]"
    unfolding discover_def
    by (rule listen_single [where body = "empire_body loads" and ds = ds and ip = ip, OF l b])
  moreover have "b_ip ?dev = ip \<and> b_port ?dev = prt \<and> b_name ?dev = name"
    using a by (simp add: dict_get_def)
  ultimately show "\<exists>dev. discover loads timeout [Packet d ds ip] = Inr [dev] \<and>
              b_ip dev = ip \<and> b_port dev = prt \<and> b_name dev = name"
    by (intro exI [of _ ?dev] conjI) simp_all
next
  assume n: "\<not> (utf8_valid ds \<and> (\<exists>kv. loads ds = Some (JObj kv) \<and>
                             map_of kv ''type'' = Some (JStr ''empire_bridge'')))"
  have b: "empire_body loads ds ip = Inr []" using n by (rule empire_body_reject)
  show "discover loads timeout [Packet d ds ip] = Inr []"
  proof (cases "0 < timeout * 1000")
    case True
    then show ?thesis unfolding discover_def
      by (rule listen_single [where body = "empire_body loads" and ds = ds and ip = ip, OF _ b])
  next
    case False
    then show ?thesis unfolding discover_def by (rule listen_single_late)
  qed
qed

theorem empire_accepts_typed_replies_only_witness:
  "(\<exists>dev. discover sample_loads 5 [Packet 20 sample_reply ''192.168.1.40''] = Inr [dev] \<and>
          b_ip dev = ''192.168.1.40'' \<and> b_port dev = JInt 5001 \<and> b_name dev = JStr ''X'')
   \<and> discover sample_loads 5 [Packet 20 untyped_reply ''192.168.1.40''] = Inr []"
proof -
  let ?kv = "[(''type'', JStr ''empire_bridge''), (''name'', JStr ''X''), (''port'', JInt 5001)]"
  have l: "sample_loads sample_reply = Some (JObj ?kv)"
    by (simp add: sample_loads_def)
  have h: "(0::int) < 5 \<and> utf8_valid sample_reply \<and> sample_loads sample_reply = Some (JObj ?kv) \<and>
       map_of ?kv ''type'' = Some (JStr ''empire_bridge'') \<and>
       map_of ?kv ''name'' = Some (JStr ''X'') \<and> map_of ?kv ''port'' = Some (JInt 5001)"
    using l utf8_sample_reply by simp
  note fact = empire_accepts_typed_replies_only
    [where loads = sample_loads and timeout = 5 and d = 20 and ip = "''192.168.1.40''"]
  have a: "\<exists>dev. discover sample_loads 5 [Packet 20 sample_reply ''192.168.1.40''] = Inr [dev] \<and>
          b_ip dev = ''192.168.1.40'' \<and> b_port dev = JInt 5001 \<and> b_name dev = JStr ''X''"
    by (rule fact [where ds = sample_reply and kv = ?kv, THEN conjunct2, THEN conjunct1,
          rule_format, OF h])
  have ne: "untyped_reply \<noteq> sample_reply"
    by (simp add: untyped_reply_def sample_reply_def)
  have u: "sample_loads untyped_reply = Some (JObj [(''name'', JStr ''X''), (''port'', JInt 5001)])"
    using ne by (simp add: sample_loads_def)
  have n: "\<not> (utf8_valid untyped_reply \<and> (\<exists>kv. sample_loads untyped_reply = Some (JObj kv) \<and>
                             map_of kv ''type'' = Some (JStr ''empire_bridge'')))"
    unfolding u by simp
  have b: "discover sample_loads 5 [Packet 20 untyped_reply ''192.168.1.40''] = Inr []"
    by (rule fact [where ds = untyped_reply, THEN conjunct2, THEN conjunct2,
          rule_format, OF n])
  show ?thesis using a b by (rule conjI)
qed

text \<open>
  C7, amended: in an iTach session whose beacon went out and in which every datagram
  heard is well-formed UTF-8, the list returned holds one entry for every reply heard
  that contains \<open>AMXB\<close>, in the order of arrival. An entry carries the sender's address
  and port 4999; its uuid is the second \<open>=\<close>-piece of the last \<open>-\<close>-separated part
  containing \<open>UUID=\<close>, its model that of the last part containing \<open>Model=\<close> (and not
  \<open>UUID=\<close>), each \<open>Unknown\<close> when there is no such part. A reply that contains
  \<open>AMXB<-UUID=abc-Model=EX1-\<close> with neither \<open>UUID=\<close> nor \<open>Model=\<close> after it gives uuid
  \<open>abc\<close>, model \<open>EX1\<close> and port 4999.
\<close>

theorem itach_session_entries:
  "((\<forall>(ds, ip)\<in>set (heard (timeout * 1000) 0 script). utf8_valid ds) \<longrightarrow>
      discover_devices True timeout script =
        Inr (itach_entries (heard (timeout * 1000) 0 script)))
   \<and> (utf8_valid ds \<and> contains ''AMXB'' ds \<longrightarrow>
        itach_try ds ip = Inr (Some (itach_entry ds ip)))
   \<and> i_ip (itach_entry ds ip) = ip \<and> i_port (itach_entry ds ip) = 4999
   \<and> (\<not> contains ''UUID='' post \<and> \<not> contains ''Model='' post \<longrightarrow>
        i_uuid (itach_entry (pre @ ''AMXB<-UUID=abc-Model=EX1-'' @ post) ip) = ''abc'' \<and>
        i_model (itach_entry (pre @ ''AMXB<-UUID=abc-Model=EX1-'' @ post) ip) = ''EX1'' \<and>
        i_port (itach_entry (pre @ ''AMXB<-UUID=abc-Model=EX1-'' @ post) ip) = 4999)"
proof (intro conjI impI)
  assume "\<forall>(ds, ip)\<in>set (heard (timeout * 1000) 0 script). utf8_valid ds"
  from listen_itach [OF this, of "[]"]
  show "discover_devices True timeout script =
        Inr (itach_entries (heard (timeout * 1000) 0 script))"
    by (simp add: discover_devices_def)
next
  assume "utf8_valid ds \<and> contains ''AMXB'' ds"
  then show "itach_try ds ip = Inr (Some (itach_entry ds ip))"
    by (simp add: itach_try_valid)
next
  show "i_ip (itach_entry ds ip) = ip" by (simp add: itach_entry_fixed)
next
  show "i_port (itach_entry ds ip) = 4999" by (simp add: itach_entry_fixed)
next
  assume a: "\<not> contains ''UUID='' post \<and> \<not> contains ''Model='' post"
  then show "i_uuid (itach_entry (pre @ ''AMXB<-UUID=abc-Model=EX1-'' @ post) ip) = ''abc''"
    using sample_reply_entry by blast
  from a show "i_model (itach_entry (pre @ ''AMXB<-UUID=abc-Model=EX1-'' @ post) ip) = ''EX1''"
    using sample_reply_entry by blast
  show "i_port (itach_entry (pre @ ''AMXB<-UUID=abc-Model=EX1-'' @ post) ip) = 4999"
    by (simp add: itach_entry_fixed)
qed

text \<open>
  C7 as stated fails: the reply \<open>AMXB<-UUID=abc-Model=EX1-UUID=zzz\<close> contains
  \<open>AMXB<-UUID=abc-Model=EX1-\<close>, and its entry has the uuid \<open>zzz\<close> of the later part.
\<close>

theorem later_uuid_part_counterexample:
  "utf8_valid ''AMXB<-UUID=abc-Model=EX1-UUID=zzz''
   \<and> contains ''AMXB<-UUID=abc-Model=EX1-'' ''AMXB<-UUID=abc-Model=EX1-UUID=zzz''
   \<and> itach_try ''AMXB<-UUID=abc-Model=EX1-UUID=zzz'' ''192.168.1.70'' =
       Inr (Some \<lparr>i_ip = ''192.168.1.70'', i_port = 4999, i_model = ''EX1'', i_uuid = ''zzz'',
                   i_name = ''iTach EX1 at 192.168.1.70'',
                   i_integration = ''global_cache_itach'', i_type = ''globalcache'',
                   i_category = ''bridge''\<rparr>)
   \<and> discover_devices True 5 [Packet 20 ''AMXB<-UUID=abc-Model=EX1-UUID=zzz'' ''192.168.1.70''] =
       Inr [\<lparr>i_ip = ''192.168.1.70'', i_port = 4999, i_model = ''EX1'', i_uuid = ''zzz'',
              i_name = ''iTach EX1 at 192.168.1.70'',
              i_integration = ''global_cache_itach'', i_type = ''globalcache'',
              i_category = ''bridge''\<rparr>]"
proof -
  let ?ds = "''AMXB<-UUID=abc-Model=EX1-UUID=zzz''"
  let ?dev = "\<lparr>i_ip = ''192.168.1.70'', i_port = 4999, i_model = ''EX1'', i_uuid = ''zzz'',
              i_name = ''iTach EX1 at 192.168.1.70'',
              i_integration = ''global_cache_itach'', i_type = ''globalcache'',
              i_category = ''bridge''\<rparr>"
  have v: "utf8_valid ?ds" by (simp add: byte_in_def)
  have c: "contains ''AMXB<-UUID=abc-Model=EX1-'' ?ds" by simp
  have t: "itach_try ?ds ''192.168.1.70'' = Inr (Some ?dev)"
    by (simp add: itach_try_def decode_utf8_def byte_in_def)
  have b: "itach_body ?ds ''192.168.1.70'' = Inr [?dev]"
    unfolding itach_body_def t by simp
  have d: "discover_devices True 5 [Packet 20 ?ds ''192.168.1.70''] = Inr [?dev]"
    unfolding discover_devices_def if_True
    by (rule listen_single [where body = itach_body and ds = ?ds and ip = "''192.168.1.70''",
                            OF _ b]) simp
  show ?thesis using v c t d by (intro conjI)
qed

theorem itach_session_entries_witness:
  "discover_devices True 5
     [Packet 20 ''AMXB<-UUID=abc-Model=EX1-'' ''192.168.1.70'', Silence,
      Packet 30 ''hello'' ''192.168.1.9'',
      Packet 10 ''AMXB<-Make=GC-Status=Ready'' ''192.168.1.71''] =
   Inr [\<lparr>i_ip = ''192.168.1.70'', i_port = 4999, i_model = ''EX1'', i_uuid = ''abc'',
          i_name = ''iTach EX1 at 192.168.1.70'',
          i_integration = ''global_cache_itach'', i_type = ''globalcache'',
          i_category = ''bridge''\<rparr>,
        \<lparr>i_ip = ''192.168.1.71'', i_port = 4999, i_model = ''Unknown'', i_uuid = ''Unknown'',
          i_name = ''iTach at 192.168.1.71'',
          i_integration = ''global_cache_itach'', i_type = ''globalcache'',
          i_category = ''bridge''\<rparr>]
   \<and> itach_try ''AMXB<-UUID=abc-Model=EX1-'' ''192.168.1.70'' =
       Inr (Some (itach_entry ''AMXB<-UUID=abc-Model=EX1-'' ''192.168.1.70''))
   \<and> i_uuid (itach_entry (''xx'' @ ''AMXB<-UUID=abc-Model=EX1-'' @ ''Status=Ready'')
               ''192.168.1.70'') = ''abc''
   \<and> i_model (itach_entry (''xx'' @ ''AMXB<-UUID=abc-Model=EX1-'' @ ''Status=Ready'')
               ''192.168.1.70'') = ''EX1''"
proof -
  let ?script = "[Packet 20 ''AMXB<-UUID=abc-Model=EX1-'' ''192.168.1.70'', Silence,
      Packet 30 ''hello'' ''192.168.1.9'',
      Packet 10 ''AMXB<-Make=GC-Status=Ready'' ''192.168.1.71'']"
  have hd: "heard (5 * 1000) 0 ?script =
            [(''AMXB<-UUID=abc-Model=EX1-'', ''192.168.1.70''), (''hello'', ''192.168.1.9''),
             (''AMXB<-Make=GC-Status=Ready'', ''192.168.1.71'')]"
    by (simp add: poll_interval_def)
  have valid: "\<forall>(ds, ip)\<in>set (heard (5 * 1000) 0 ?script). utf8_valid ds"
    unfolding hd by (simp add: byte_in_def)
  have "discover_devices True 5 ?script = Inr (itach_entries (heard (5 * 1000) 0 ?script))"
    by (rule itach_session_entries [where timeout = 5 and script = ?script,
              THEN conjunct1, THEN mp, OF valid])
  also have "itach_entries (heard (5 * 1000) 0 ?script) =
     [\<lparr>i_ip = ''192.168.1.70'', i_port = 4999, i_model = ''EX1'', i_uuid = ''abc'',
          i_name = ''iTach EX1 at 192.168.1.70'',
          i_integration = ''global_cache_itach'', i_type = ''globalcache'',
          i_category = ''bridge''\<rparr>,
        \<lparr>i_ip = ''192.168.1.71'', i_port = 4999, i_model = ''Unknown'', i_uuid = ''Unknown'',
          i_name = ''iTach at 192.168.1.71'',
          i_integration = ''global_cache_itach'', i_type = ''globalcache'',
          i_category = ''bridge''\<rparr>]"
    unfolding hd by (simp add: itach_entries_def itach_entry_def last_value_def)
  finally have a: "discover_devices True 5 ?script =
     Inr [\<lparr>i_ip = ''192.168.1.70'', i_port = 4999, i_model = ''EX1'', i_uuid = ''abc'',
          i_name = ''iTach EX1 at 192.168.1.70'',
          i_integration = ''global_cache_itach'', i_type = ''globalcache'',
          i_category = ''bridge''\<rparr>,
        \<lparr>i_ip = ''192.168.1.71'', i_port = 4999, i_model = ''Unknown'', i_uuid = ''Unknown'',
          i_name = ''iTach at 192.168.1.71'',
          i_integration = ''global_cache_itach'', i_type = ''globalcache'',
          i_category = ''bridge''\<rparr>]" .
  have va: "utf8_valid ''AMXB<-UUID=abc-Model=EX1-'' \<and>
            contains ''AMXB'' ''AMXB<-UUID=abc-Model=EX1-''"
    by (simp add: byte_in_def)
  have b: "itach_try ''AMXB<-UUID=abc-Model=EX1-'' ''192.168.1.70'' =
       Inr (Some (itach_entry ''AMXB<-UUID=abc-Model=EX1-'' ''192.168.1.70''))"
    by (rule itach_session_entries [THEN conjunct2, THEN conjunct1, rule_format, OF va])
  have np: "\<not> contains ''UUID='' ''Status=Ready'' \<and> \<not> contains ''Model='' ''Status=Ready''"
    by simp
  note ex = itach_session_entries
    [where pre = "''xx''" and post = "''Status=Ready''" and ip = "''192.168.1.70''",
     THEN conjunct2, THEN conjunct2, THEN conjunct2, THEN conjunct2, rule_format, OF np]
  have c: "i_uuid (itach_entry (''xx'' @ ''AMXB<-UUID=abc-Model=EX1-'' @ ''Status=Ready'')
               ''192.168.1.70'') = ''abc''"
    using ex by (rule conjunct1)
  have d: "i_model (itach_entry (''xx'' @ ''AMXB<-UUID=abc-Model=EX1-'' @ ''Status=Ready'')
               ''192.168.1.70'') = ''EX1''"
    using ex [THEN conjunct2] by (rule conjunct1)
  show ?thesis using a b c d by (intro conjI)
qed

end
